theory Spec2Isabelle
  imports Complex_Main "HOL-Library.Word"
begin

section \<open>Python values\<close>

text \<open>
  The values a JSON body, a header or an option dictionary can hold. A \<open>char\<close> stands
  for one code point of a Python \<^verbatim>\<open>str\<close> (code points below 256). A float is kept
  as sign, mantissa and binary exponent, so that \<^verbatim>\<open>0.0\<close> and \<^verbatim>\<open>-0.0\<close>, which print
  differently, are different values. A \<^verbatim>\<open>datetime\<close> is kept as the text its
  \<^verbatim>\<open>isoformat()\<close> returns, the only thing the service reads from it.
\<close>

type_synonym datetime = string

datatype pyfloat = FFinite bool nat int | FInf bool | FNaN

datatype pyval =
    PNone
  | PBool bool
  | PInt int
  | PFloat pyfloat
  | PStr string
  | PList "pyval list"
  | PDict "(string \<times> pyval) list"
  | PDatetime datetime

text \<open>
  Python exceptions as values. \<open>LibraryError\<close> is an exception raised inside a library
  or by the operating system, with the library's text; \<open>Wrapped p e\<close> is
  \<^verbatim>\<open>Exception(f"{p}: {str(e)}")\<close>; \<open>UnboundLocalError v\<close> is a read of the local
  variable \<open>v\<close> before any assignment to it.
\<close>

datatype exn =
    KeyError string
  | AttributeError string
  | TypeError string
  | ValueError string
  | UnboundLocalError string
  | LibraryError string
  | Exception string
  | Wrapped string exn

text \<open>Python truth value (\<^verbatim>\<open>not v\<close> is its negation).\<close>

fun truthy :: "pyval \<Rightarrow> bool" where
  "truthy PNone = False"
| "truthy (PBool b) = b"
| "truthy (PInt i) = (i \<noteq> 0)"
| "truthy (PFloat (FFinite s m e)) = (m \<noteq> 0)"
| "truthy (PFloat _) = True"
| "truthy (PStr s) = (s \<noteq> [])"
| "truthy (PList xs) = (xs \<noteq> [])"
| "truthy (PDict kvs) = (kvs \<noteq> [])"
| "truthy (PDatetime d) = True"

text \<open>
  \<^verbatim>\<open>str.isspace\<close> on code points below 256: TAB, LF, VT, FF, CR, the separators
  0x1C to 0x1F, space, NEL (0x85) and the no-break space (0xA0).
\<close>

definition isspace :: "char \<Rightarrow> bool" where
  "isspace c = (of_char c \<in> {9, 10, 11, 12, 13, 28, 29, 30, 31, 32, 133, 160 :: nat})"

definition strip :: "string \<Rightarrow> string" where
  "strip s = rev (dropWhile isspace (rev (dropWhile isspace s)))"

text \<open>\<^verbatim>\<open>s.replace(c, r)\<close> for a one-character pattern.\<close>

definition replace_char :: "char \<Rightarrow> string \<Rightarrow> string \<Rightarrow> string" where
  "replace_char c r s = concat (map (\<lambda>x. if x = c then r else [x]) s)"

text \<open>\<^verbatim>\<open>str(n)\<close> for an integer: decimal digits, with a minus sign.\<close>

fun str_nat :: "nat \<Rightarrow> string" where
  "str_nat n =
     (if n < 10 then [''0123456789'' ! n]
      else str_nat (n div 10) @ [''0123456789'' ! (n mod 10)])"

declare str_nat.simps [simp del]

definition str_int :: "int \<Rightarrow> string" where
  "str_int i = (if i < 0 then CHR ''-'' # str_nat (nat (- i)) else str_nat (nat i))"

text \<open>\<^verbatim>\<open>int(x)\<close> on a number of seconds: truncation towards zero.\<close>

definition py_int :: "rat \<Rightarrow> int" where
  "py_int x = (if 0 \<le> x then \<lfloor>x\<rfloor> else \<lceil>x\<rceil>)"

section \<open>Rate limiter (src/tts_service/rate_limiter.py)\<close>

text \<open>
  \<^verbatim>\<open>time.time()\<close> is read once per call and passed in as \<open>now\<close>. Seconds are exact
  rationals here; the rounding of Python's floats is not modelled.
  \<^verbatim>\<open>self.requests\<close> is a \<^verbatim>\<open>defaultdict(deque)\<close>: every identifier has a window, empty
  until something is recorded, so it is a total function into lists (oldest first).
\<close>

record RateLimiter =
  max_requests :: int
  window_seconds :: int
  requests :: "string \<Rightarrow> rat list"

definition RateLimiter_init :: "int \<Rightarrow> int \<Rightarrow> RateLimiter" where
  "RateLimiter_init m ws = \<lparr>max_requests = m, window_seconds = ws, requests = (\<lambda>_. [])\<rparr>"

text \<open>The cleaning loop: \<^verbatim>\<open>while q and q[0] < window_start: q.popleft()\<close>.\<close>

fun clean_old :: "rat \<Rightarrow> rat list \<Rightarrow> rat list" where
  "clean_old window_start [] = []"
| "clean_old window_start (t # q) =
     (if t < window_start then clean_old window_start q else t # q)"

definition is_allowed :: "RateLimiter \<Rightarrow> string \<Rightarrow> rat \<Rightarrow> bool \<times> RateLimiter" where
  "is_allowed rl identifier now =
     (let window_start = now - of_int (window_seconds rl);
          q = clean_old window_start (requests rl identifier)
      in if int (length q) < max_requests rl
         then (True, rl\<lparr>requests := (requests rl)(identifier := q @ [now])\<rparr>)
         else (False, rl\<lparr>requests := (requests rl)(identifier := q)\<rparr>))"

definition get_reset_time :: "RateLimiter \<Rightarrow> string \<Rightarrow> rat \<Rightarrow> rat" where
  "get_reset_time rl identifier now =
     (case requests rl identifier of
        [] \<Rightarrow> 0
      | oldest_request # _ \<Rightarrow> oldest_request + of_int (window_seconds rl) - now)"


subsection \<open>API keys and the security middleware\<close>

type_synonym metadata = "(string \<times> pyval) list"

record APIKeyValidator =
  valid_keys :: "string \<rightharpoonup> metadata"

definition validate_key :: "APIKeyValidator \<Rightarrow> string \<Rightarrow> metadata option" where
  "validate_key v api_key = valid_keys v api_key"

definition add_key :: "APIKeyValidator \<Rightarrow> string \<Rightarrow> metadata \<Rightarrow> APIKeyValidator" where
  "add_key v api_key md = v\<lparr>valid_keys := (valid_keys v)(api_key \<mapsto> md)\<rparr>"

definition remove_key :: "APIKeyValidator \<Rightarrow> string \<Rightarrow> APIKeyValidator" where
  "remove_key v api_key = v\<lparr>valid_keys := (valid_keys v)(api_key := None)\<rparr>"

record SecurityMiddleware =
  rate_limiter :: RateLimiter
  api_validator :: APIKeyValidator
  require_api_key :: bool

text \<open>
  What \<^verbatim>\<open>check_request\<close> reads from the FastAPI request: the client's host (absent
  when \<^verbatim>\<open>request.client\<close> is \<^verbatim>\<open>None\<close>), the \<^verbatim>\<open>X-API-Key\<close> header and the \<^verbatim>\<open>api_key\<close>
  query parameter.
\<close>

record request =
  client_host :: "string option"
  header_api_key :: "string option"
  query_api_key :: "string option"

datatype http_exception =
  HTTPException (status_code: nat) (detail: string) (headers: "(string \<times> string) list")

record check_result =
  res_client_ip :: string
  res_api_key :: "string option"
  res_key_metadata :: "metadata option"
  res_identifier :: string

text \<open>Truth value of an optional string, and Python's \<^verbatim>\<open>a or b\<close> on two of them.\<close>

definition truthy_str :: "string option \<Rightarrow> bool" where
  "truthy_str a = (case a of None \<Rightarrow> False | Some s \<Rightarrow> s \<noteq> [])"

definition py_or :: "string option \<Rightarrow> string option \<Rightarrow> string option" where
  "py_or a b = (if truthy_str a then a else b)"

text \<open>
  \<^verbatim>\<open>check_request\<close>. The clock is read by \<^verbatim>\<open>is_allowed\<close> (\<open>now\<close>) and, on a denial, again
  by \<^verbatim>\<open>get_reset_time\<close> (\<open>now'\<close>). Raising is \<open>Inl\<close>; the middleware is returned with
  the rate limiter as the call left it.
\<close>

definition check_request ::
  "SecurityMiddleware \<Rightarrow> request \<Rightarrow> rat \<Rightarrow> rat \<Rightarrow>
     (http_exception + check_result) \<times> SecurityMiddleware" where
  "check_request sm req now now' =
     (let client_ip = (case client_host req of Some h \<Rightarrow> h | None \<Rightarrow> ''unknown'');
          api_key = py_or (header_api_key req) (query_api_key req);
          identifier = (if truthy_str api_key then the api_key else client_ip);
          key_metadata =
            (if truthy_str api_key then validate_key (api_validator sm) (the api_key)
             else None)
      in if truthy_str api_key \<and> (key_metadata = None \<or> key_metadata = Some [])
         then (Inl (HTTPException 401 ''Invalid API key'' []), sm)
         else if \<not> truthy_str api_key \<and> require_api_key sm
         then (Inl (HTTPException 401 ''API key required'' []), sm)
         else
           (case is_allowed (rate_limiter sm) identifier now of
              (False, rl') \<Rightarrow>
                (let reset_time = get_reset_time rl' identifier now'
                 in (Inl (HTTPException 429
                       (''Rate limit exceeded. Try again in '' @ str_int (py_int reset_time)
                          @ '' seconds'')
                       [(''Retry-After'', str_int (py_int reset_time))]),
                     sm\<lparr>rate_limiter := rl'\<rparr>))
            | (True, rl') \<Rightarrow>
                (Inr \<lparr>res_client_ip = client_ip, res_api_key = api_key,
                      res_key_metadata = key_metadata, res_identifier = identifier\<rparr>,
                 sm\<lparr>rate_limiter := rl'\<rparr>)))"

subsection \<open>Text sanitising\<close>

text \<open>
  \<^verbatim>\<open>sanitize_text(text, max_length=5000)\<close>. \<^verbatim>\<open>forbidden_patterns\<close> is the empty list in
  the source, so the filtering loop has no iteration.
\<close>

definition sanitize_text :: "string \<Rightarrow> int \<Rightarrow> exn + string" where
  "sanitize_text text max_length =
     (if text = [] \<or> strip text = [] then Inl (ValueError ''Text cannot be empty'')
      else let text' = strip text
           in if int (length text') > max_length
              then Inl (ValueError (''Text too long. Maximum '' @ str_int max_length
                                      @ '' characters allowed''))
              else Inr text')"

definition default_max_length :: int where
  "default_max_length = 5000"


section \<open>The webhook service (src/tts_service/main.py)\<close>

subsection \<open>The world outside the service\<close>

text \<open>
  Calls that leave the repository are parameters of the model, collected in \<open>env\<close>:
  \<^item> \<open>md5_hexdigest\<close>: \<^verbatim>\<open>hashlib.md5(s.encode()).hexdigest()\<close>;
  \<^item> \<open>json_dumps_value\<close>: \<^verbatim>\<open>json.dumps\<close> of one value (\<open>Inl\<close> when it is not serialisable);
  \<^item> \<open>fromisoformat\<close>: \<^verbatim>\<open>datetime.datetime.fromisoformat\<close>;
  \<^item> \<open>str_other\<close>: \<^verbatim>\<open>str(v)\<close> of a value that is not a \<^verbatim>\<open>str\<close>, as an f-string formats it;
  \<^item> \<open>path_join\<close>: \<^verbatim>\<open>str(Path(d) / name)\<close>;
  \<^item> \<open>espeak_speed\<close>: \<^verbatim>\<open>str(int(150 * v))\<close>;
  \<^item> \<open>GTTS_AVAILABLE\<close>, \<open>openai_client\<close>: whether the import of gTTS succeeded and whether
    the OpenAI client was created at start-up;
  \<^item> \<open>external\<close>: a call into gTTS, the OpenAI client or the file system, \<open>Some e\<close> when it
    raises \<open>e\<close>;
  \<^item> \<open>espeak_run\<close>: \<^verbatim>\<open>subprocess.run\<close> of espeak, returning the exit code and stderr.
  The last two take the number of events so far as a logical time, so that the same call
  may fail once and succeed later.
\<close>

type_synonym options = "string \<rightharpoonup> pyval"

datatype extcall =
    GttsConstruct pyval options
  | GttsSave string
  | OpenAISpeechCreate pyval options
  | WriteFile string
  | WaveWrite string

record env =
  md5_hexdigest :: "string \<Rightarrow> string"
  json_dumps_value :: "pyval \<Rightarrow> exn + string"
  fromisoformat :: "string \<Rightarrow> exn + datetime"
  str_other :: "pyval \<Rightarrow> string"
  path_join :: "string \<Rightarrow> string \<Rightarrow> string"
  espeak_speed :: "pyval \<Rightarrow> exn + string"
  GTTS_AVAILABLE :: bool
  openai_client :: bool
  external :: "nat \<Rightarrow> extcall \<Rightarrow> exn option"
  espeak_run :: "nat \<Rightarrow> string list \<Rightarrow> pyval \<Rightarrow> exn + (int \<times> string)"

text \<open>
  The disk and a log of what a request did outside its own variables: the cache key it
  computed, the cache lookup, each call of an engine's \<^verbatim>\<open>generate_audio\<close>.
  A WAV file keeps its channels, sample width, frame rate and frame bytes; any other
  audio file is opaque.
\<close>

datatype content = Audio | Wav nat nat nat "8 word list"

datatype event = KeyComputed string | CacheLookup string | Synthesize string

record world =
  files :: "string \<rightharpoonup> content"
  trace :: "event list"

definition log_event :: "event \<Rightarrow> world \<Rightarrow> world" where
  "log_event ev w = w\<lparr>trace := trace w @ [ev]\<rparr>"

definition write_file :: "string \<Rightarrow> content \<Rightarrow> world \<Rightarrow> world" where
  "write_file path c w = w\<lparr>files := (files w)(path \<mapsto> c)\<rparr>"

definition path_exists :: "world \<Rightarrow> string \<Rightarrow> bool" where
  "path_exists w path = (files w path \<noteq> None)"

text \<open>Playing time of a WAV file in seconds: frames divided by the frame rate.\<close>

fun wav_seconds :: "content \<Rightarrow> rat" where
  "wav_seconds (Wav nchannels sampwidth framerate frames) =
     of_nat (length frames div (nchannels * sampwidth)) / of_nat framerate"
| "wav_seconds Audio = 0"

subsection \<open>State and engines\<close>

record app_state =
  request_count :: nat
  cache :: "string \<rightharpoonup> string"

definition AUDIO_DIR :: string where
  "AUDIO_DIR = ''audio_files''"

datatype engine = GTTSEngine | OpenAITTSEngine | SystemTTSEngine

fun name :: "engine \<Rightarrow> string" where
  "name GTTSEngine = ''gtts''"
| "name OpenAITTSEngine = ''openai''"
| "name SystemTTSEngine = ''system''"

definition tts_engines :: "string \<rightharpoonup> engine" where
  "tts_engines =
     [''gtts'' \<mapsto> GTTSEngine, ''openai'' \<mapsto> OpenAITTSEngine, ''system'' \<mapsto> SystemTTSEngine]"

definition py_str :: "env \<Rightarrow> pyval \<Rightarrow> string" where
  "py_str env v = (case v of PStr s \<Rightarrow> s | _ \<Rightarrow> str_other env v)"

text \<open>
  The file name every engine builds:
  \<^verbatim>\<open>f"{options['agent']}_{options['timestamp'].isoformat().replace(':', '-')}" + ext\<close>.
  A missing key raises \<^verbatim>\<open>KeyError\<close>; a timestamp that is not a \<^verbatim>\<open>datetime\<close> has no
  \<^verbatim>\<open>isoformat\<close>.
\<close>

definition audio_filename :: "env \<Rightarrow> options \<Rightarrow> string \<Rightarrow> exn + string" where
  "audio_filename env opts ext =
     (case opts ''agent'' of
        None \<Rightarrow> Inl (KeyError ''agent'')
      | Some a \<Rightarrow>
          (case opts ''timestamp'' of
             None \<Rightarrow> Inl (KeyError ''timestamp'')
           | Some (PDatetime d) \<Rightarrow>
               Inr (py_str env a @ ''_'' @ replace_char (CHR '':'') ''-'' d @ ext)
           | Some _ \<Rightarrow> Inl (AttributeError ''isoformat'')))"

definition audio_path :: "env \<Rightarrow> options \<Rightarrow> string \<Rightarrow> exn + string" where
  "audio_path env opts ext =
     (case audio_filename env opts ext of
        Inl e \<Rightarrow> Inl e
      | Inr filename \<Rightarrow> Inr (path_join env AUDIO_DIR filename))"

text \<open>
  The fallback of the system engine: one channel, two bytes a sample, 22050 frames a
  second, and \<^verbatim>\<open>b'\x00' * 44100\<close> as frames.
\<close>

definition silent_wav :: content where
  "silent_wav = Wav 1 2 22050 (replicate 44100 0)"

text \<open>
  \<^verbatim>\<open>GTTSEngine.generate_audio\<close> after the availability test: the body of its
  \<^verbatim>\<open>try\<close>. \<open>n\<close> is the logical time of the call.
\<close>

definition gtts_try :: "env \<Rightarrow> nat \<Rightarrow> pyval \<Rightarrow> options \<Rightarrow> world \<Rightarrow> (exn + string) \<times> world" where
  "gtts_try env n text opts w =
     (case external env n (GttsConstruct text opts) of
        Some e \<Rightarrow> (Inl e, w)
      | None \<Rightarrow>
          (case audio_path env opts ''.mp3'' of
             Inl e \<Rightarrow> (Inl e, w)
           | Inr filepath \<Rightarrow>
               (case external env n (GttsSave filepath) of
                  Some e \<Rightarrow> (Inl e, w)
                | None \<Rightarrow> (Inr filepath, write_file filepath Audio w))))"

definition openai_try :: "env \<Rightarrow> nat \<Rightarrow> pyval \<Rightarrow> options \<Rightarrow> world \<Rightarrow> (exn + string) \<times> world" where
  "openai_try env n text opts w =
     (case external env n (OpenAISpeechCreate text opts) of
        Some e \<Rightarrow> (Inl e, w)
      | None \<Rightarrow>
          (case audio_path env opts ''.mp3'' of
             Inl e \<Rightarrow> (Inl e, w)
           | Inr filepath \<Rightarrow>
               (case external env n (WriteFile filepath) of
                  Some e \<Rightarrow> (Inl e, w)
                | None \<Rightarrow> (Inr filepath, write_file filepath Audio w))))"

text \<open>
  The \<^verbatim>\<open>try\<close> of \<^verbatim>\<open>SystemTTSEngine.generate_audio\<close>: file name, espeak command line,
  espeak; exit code 0 returns the path, any other raises.
\<close>

definition system_try :: "env \<Rightarrow> nat \<Rightarrow> pyval \<Rightarrow> options \<Rightarrow> world \<Rightarrow> (exn + string) \<times> world" where
  "system_try env n text opts w =
     (case audio_path env opts ''.wav'' of
        Inl e \<Rightarrow> (Inl e, w)
      | Inr filepath \<Rightarrow>
          (case espeak_speed env (case opts ''speed'' of None \<Rightarrow> PFloat (FFinite False 1 0)
                                                      | Some v \<Rightarrow> v) of
             Inl e \<Rightarrow> (Inl e, w)
           | Inr speed \<Rightarrow>
               (case espeak_run env n [''espeak'', ''-s'', speed, ''-w'', filepath] text of
                  Inl e \<Rightarrow> (Inl e, w)
                | Inr (returncode, stderr) \<Rightarrow>
                    if returncode = 0 then (Inr filepath, write_file filepath Audio w)
                    else (Inl (Exception (''espeak failed: '' @ stderr)), w))))"

text \<open>Its \<^verbatim>\<open>except\<close> handler: the silent file, written with the \<^verbatim>\<open>wave\<close> module.\<close>

definition system_except :: "env \<Rightarrow> nat \<Rightarrow> options \<Rightarrow> world \<Rightarrow> (exn + string) \<times> world" where
  "system_except env n opts w =
     (case audio_path env opts ''_silent.wav'' of
        Inl e \<Rightarrow> (Inl e, w)
      | Inr filepath \<Rightarrow>
          (case external env n (WaveWrite filepath) of
             Some e \<Rightarrow> (Inl e, w)
           | None \<Rightarrow> (Inr filepath, write_file filepath silent_wav w)))"

text \<open>
  \<^verbatim>\<open>engine.generate_audio(text, options)\<close> for the three classes. The call is logged
  first; a file that a failed call left half written is not modelled.
\<close>

definition generate_audio ::
  "env \<Rightarrow> engine \<Rightarrow> pyval \<Rightarrow> options \<Rightarrow> world \<Rightarrow> (exn + string) \<times> world" where
  "generate_audio env eng text opts w =
     (let n = length (trace w); w1 = log_event (Synthesize (name eng)) w
      in case eng of
           GTTSEngine \<Rightarrow>
             if \<not> GTTS_AVAILABLE env then (Inl (Exception ''gTTS engine not available''), w1)
             else (case gtts_try env n text opts w1 of
                     (Inl e, w2) \<Rightarrow> (Inl (Wrapped ''gTTS generation failed'' e), w2)
                   | (Inr filepath, w2) \<Rightarrow> (Inr filepath, w2))
         | OpenAITTSEngine \<Rightarrow>
             if \<not> openai_client env then (Inl (Exception ''OpenAI TTS engine not available''), w1)
             else (case openai_try env n text opts w1 of
                     (Inl e, w2) \<Rightarrow> (Inl (Wrapped ''OpenAI TTS generation failed'' e), w2)
                   | (Inr filepath, w2) \<Rightarrow> (Inr filepath, w2))
         | SystemTTSEngine \<Rightarrow>
             (case system_try env n text opts w1 of
                (Inl e, w2) \<Rightarrow> system_except env n opts w2
              | (Inr filepath, w2) \<Rightarrow> (Inr filepath, w2)))"

subsection \<open>Cache key\<close>

text \<open>\<^verbatim>\<open>options.get(k)\<close>: \<^verbatim>\<open>None\<close> for a missing key.\<close>

definition options_get :: "options \<Rightarrow> string \<Rightarrow> pyval" where
  "options_get opts k = (case opts k of None \<Rightarrow> PNone | Some v \<Rightarrow> v)"

text \<open>
  \<^verbatim>\<open>json.dumps(d, sort_keys=True)\<close> of a dictionary given as its items in key order:
  \<^verbatim>\<open>{"k1": v1, "k2": v2}\<close> with the default separators.
\<close>

fun json_items :: "env \<Rightarrow> (string \<times> pyval) list \<Rightarrow> exn + string list" where
  "json_items env [] = Inr []"
| "json_items env ((k, v) # kvs) =
     (case json_dumps_value env v of
        Inl e \<Rightarrow> Inl e
      | Inr s \<Rightarrow>
          (case json_items env kvs of
             Inl e \<Rightarrow> Inl e
           | Inr ss \<Rightarrow> Inr (([CHR 0x22] @ k @ [CHR 0x22] @ '': '' @ s) # ss)))"

fun join :: "string \<Rightarrow> string list \<Rightarrow> string" where
  "join sep [] = []"
| "join sep [s] = s"
| "join sep (s # ss) = s @ sep @ join sep ss"

definition json_dumps_sorted :: "env \<Rightarrow> (string \<times> pyval) list \<Rightarrow> exn + string" where
  "json_dumps_sorted env kvs =
     (case json_items env kvs of
        Inl e \<Rightarrow> Inl e
      | Inr ss \<Rightarrow> Inr (''{'' @ join '', '' ss @ ''}''))"

text \<open>
  \<^verbatim>\<open>generate_cache_key(text, options)\<close>. \<open>cache_data\<close> lists the five entries in the order
  \<^verbatim>\<open>sort_keys=True\<close> serialises them.
\<close>

definition cache_data :: "pyval \<Rightarrow> options \<Rightarrow> (string \<times> pyval) list" where
  "cache_data text opts =
     [(''engine'', options_get opts ''engine''),
      (''language'', options_get opts ''language''),
      (''speed'', options_get opts ''speed''),
      (''text'', text),
      (''voice_type'', options_get opts ''voice_type'')]"

definition generate_cache_key :: "env \<Rightarrow> pyval \<Rightarrow> options \<Rightarrow> exn + string" where
  "generate_cache_key env text opts =
     (case json_dumps_sorted env (cache_data text opts) of
        Inl e \<Rightarrow> Inl e
      | Inr s \<Rightarrow> Inr (md5_hexdigest env s))"

subsection \<open>The webhook\<close>

text \<open>
  The JSON replies of \<^verbatim>\<open>receive_utterance\<close>: success (200), the empty-utterance error
  (400), the reply of the outer \<^verbatim>\<open>except\<close> (500, carrying the exception whose text it
  reports and the agent), and an exception that leaves the handler itself, which Flask
  answers with 500. \<^verbatim>\<open>processing_time\<close>, \<^verbatim>\<open>file_size\<close> and \<^verbatim>\<open>audio_url\<close>
  are left out of the success reply.
\<close>

datatype response =
    Success (resp_audio_file: string) (resp_agent: pyval) (resp_engine_used: string)
      (resp_cache_hit: bool)
  | BadRequest
  | ServerError exn pyval
  | Unhandled exn

fun http_status :: "response \<Rightarrow> nat" where
  "http_status (Success f a e h) = 200"
| "http_status BadRequest = 400"
| "http_status (ServerError e a) = 500"
| "http_status (Unhandled e) = 500"

text \<open>\<^verbatim>\<open>payload.get(k, d)\<close> on a JSON object given as its items.\<close>

definition dict_get :: "(string \<times> pyval) list \<Rightarrow> string \<Rightarrow> pyval \<Rightarrow> pyval" where
  "dict_get kvs k d = (case map_of kvs k of None \<Rightarrow> d | Some v \<Rightarrow> v)"

text \<open>
  The outer \<^verbatim>\<open>except\<close>: the agent is read with
  \<^verbatim>\<open>payload.get('agent', 'unknown') if payload else 'unknown'\<close>, which itself raises on
  a true payload that is no dictionary.
\<close>

definition error_response :: "exn \<Rightarrow> pyval \<Rightarrow> response" where
  "error_response e payload =
     (if truthy payload
      then (case payload of
              PDict kvs \<Rightarrow> ServerError e (dict_get kvs ''agent'' (PStr ''unknown''))
            | _ \<Rightarrow> Unhandled (AttributeError ''get''))
      else ServerError e (PStr ''unknown''))"

text \<open>
  Lines 215 to 218: the timestamp defaults to the current time, and a string is parsed
  with \<^verbatim>\<open>fromisoformat(timestamp.replace('Z', '+00:00'))\<close>; any other value stays as it
  is. \<open>now\<close> is \<^verbatim>\<open>datetime.datetime.now()\<close>, whose \<^verbatim>\<open>isoformat()\<close> parses back to itself.
\<close>

definition parse_timestamp :: "env \<Rightarrow> datetime \<Rightarrow> (string \<times> pyval) list \<Rightarrow> exn + pyval" where
  "parse_timestamp env now kvs =
     (case map_of kvs ''timestamp'' of
        None \<Rightarrow> Inr (PDatetime now)
      | Some (PStr s) \<Rightarrow>
          (case fromisoformat env (replace_char (CHR ''Z'') ''+00:00'' s) of
             Inl e \<Rightarrow> Inl e
           | Inr d \<Rightarrow> Inr (PDatetime d))
      | Some v \<Rightarrow> Inr v)"

text \<open>
  \<^verbatim>\<open>not utterance or not utterance.strip()\<close>: a false value is blank without a call of
  \<^verbatim>\<open>strip\<close>; a true value that is no string has no \<^verbatim>\<open>strip\<close>.
\<close>

definition is_blank :: "pyval \<Rightarrow> exn + bool" where
  "is_blank utterance =
     (if \<not> truthy utterance then Inr True
      else (case utterance of
              PStr s \<Rightarrow> Inr (strip s = [])
            | _ \<Rightarrow> Inl (AttributeError ''strip'')))"

definition build_options ::
  "pyval \<Rightarrow> pyval \<Rightarrow> pyval \<Rightarrow> pyval \<Rightarrow> pyval \<Rightarrow> pyval \<Rightarrow> options" where
  "build_options agent timestamp engine_name voice_type language speed =
     [''agent'' \<mapsto> agent, ''timestamp'' \<mapsto> timestamp, ''engine'' \<mapsto> engine_name,
      ''voice_type'' \<mapsto> voice_type, ''language'' \<mapsto> language, ''speed'' \<mapsto> speed]"

text \<open>
  Lines 246 to 254. The result is the cached file on a hit (\<^verbatim>\<open>cache_hit = True\<close>) and
  \<open>None\<close> otherwise; an entry whose file is gone is deleted.
\<close>

definition check_cache :: "string \<Rightarrow> app_state \<Rightarrow> world \<Rightarrow> string option \<times> app_state \<times> world" where
  "check_cache cache_key st w =
     (let w1 = log_event (CacheLookup cache_key) w
      in case cache st cache_key of
           None \<Rightarrow> (None, st, w1)
         | Some cached_file \<Rightarrow>
             if path_exists w cached_file then (Some cached_file, st, w1)
             else (None, st\<lparr>cache := (cache st)(cache_key := None)\<rparr>, w1))"

text \<open>
  \<^verbatim>\<open>tts_engines.get(engine_name)\<close>: a list or a dictionary cannot be hashed; any other
  value that is not one of the three names finds nothing.
\<close>

definition lookup_engine :: "pyval \<Rightarrow> exn + engine option" where
  "lookup_engine engine_name =
     (case engine_name of
        PStr s \<Rightarrow> Inr (tts_engines s)
      | PList xs \<Rightarrow> Inl (TypeError ''unhashable type'')
      | PDict kvs \<Rightarrow> Inl (TypeError ''unhashable type'')
      | _ \<Rightarrow> Inr None)"

text \<open>
  Lines 257 to 273: the engine, the synthesis, and the retry with the system engine.
  The result has the file and the value of the variable \<^verbatim>\<open>engine\<close>.
\<close>

definition select_and_generate ::
  "env \<Rightarrow> pyval \<Rightarrow> pyval \<Rightarrow> options \<Rightarrow> string \<Rightarrow> app_state \<Rightarrow> world \<Rightarrow>
     (exn + string \<times> engine) \<times> app_state \<times> world" where
  "select_and_generate env engine_name utterance opts cache_key st w =
     (case lookup_engine engine_name of
        Inl e \<Rightarrow> (Inl e, st, w)
      | Inr found \<Rightarrow>
          (let engine = (case found of None \<Rightarrow> SystemTTSEngine | Some eng \<Rightarrow> eng)
           in case generate_audio env engine utterance opts w of
                (Inr audio_filepath, w1) \<Rightarrow>
                  (Inr (audio_filepath, engine),
                   st\<lparr>cache := (cache st)(cache_key \<mapsto> audio_filepath)\<rparr>, w1)
              | (Inl e, w1) \<Rightarrow>
                  if engine_name \<noteq> PStr ''system''
                  then (case generate_audio env SystemTTSEngine utterance opts w1 of
                          (Inr audio_filepath, w2) \<Rightarrow>
                            (Inr (audio_filepath, SystemTTSEngine),
                             st\<lparr>cache := (cache st)(cache_key \<mapsto> audio_filepath)\<rparr>, w2)
                        | (Inl e2, w2) \<Rightarrow> (Inl e2, st, w2))
                  else (Inl e, st, w1)))"

text \<open>
  The local variables that the reply reads. \<^verbatim>\<open>engine\<close> is assigned only inside
  \<^verbatim>\<open>if not cache_hit\<close>, so it is unbound (\<open>None\<close>) after a hit.
\<close>

record locals =
  audio_filepath :: string
  cache_hit :: bool
  engine_var :: "engine option"

definition lookup_or_synthesize ::
  "env \<Rightarrow> pyval \<Rightarrow> pyval \<Rightarrow> options \<Rightarrow> string \<Rightarrow> app_state \<Rightarrow> world \<Rightarrow>
     (exn + locals) \<times> app_state \<times> world" where
  "lookup_or_synthesize env engine_name utterance opts cache_key st w =
     (case check_cache cache_key st w of
        (Some cached_file, st1, w1) \<Rightarrow>
          (Inr \<lparr>audio_filepath = cached_file, cache_hit = True, engine_var = None\<rparr>, st1, w1)
      | (None, st1, w1) \<Rightarrow>
          (case select_and_generate env engine_name utterance opts cache_key st1 w1 of
             (Inl e, st2, w2) \<Rightarrow> (Inl e, st2, w2)
           | (Inr (path, eng), st2, w2) \<Rightarrow>
               (Inr \<lparr>audio_filepath = path, cache_hit = False, engine_var = Some eng\<rparr>,
                st2, w2)))"

text \<open>Lines 275 to 300: the reply reads \<^verbatim>\<open>engine.name\<close>.\<close>

definition success_response :: "pyval \<Rightarrow> locals \<Rightarrow> exn + response" where
  "success_response agent l =
     (case engine_var l of
        None \<Rightarrow> Inl (UnboundLocalError ''engine'')
      | Some eng \<Rightarrow> Inr (Success (audio_filepath l) agent (name eng) (cache_hit l)))"

text \<open>Lines 231 to 300, after the utterance has passed the emptiness test.\<close>

definition process ::
  "env \<Rightarrow> app_state \<Rightarrow> world \<Rightarrow> pyval \<Rightarrow> pyval \<Rightarrow> pyval \<Rightarrow> pyval \<Rightarrow> options \<Rightarrow>
     response \<times> app_state \<times> world" where
  "process env st w payload agent utterance engine_name opts =
     (case generate_cache_key env utterance opts of
        Inl e \<Rightarrow> (error_response e payload, st, w)
      | Inr cache_key \<Rightarrow>
          (case lookup_or_synthesize env engine_name utterance opts cache_key st
                  (log_event (KeyComputed cache_key) w) of
             (Inl e, st', w') \<Rightarrow> (error_response e payload, st', w')
           | (Inr l, st', w') \<Rightarrow>
               (case success_response agent l of
                  Inl e \<Rightarrow> (error_response e payload, st', w')
                | Inr r \<Rightarrow> (r, st', w'))))"

text \<open>
  \<^verbatim>\<open>receive_utterance\<close> on the body that \<^verbatim>\<open>request.get_json()\<close> returned, with the
  state and the world before the request and after it.
\<close>

definition receive_utterance ::
  "env \<Rightarrow> datetime \<Rightarrow> app_state \<Rightarrow> world \<Rightarrow> pyval \<Rightarrow> response \<times> app_state \<times> world" where
  "receive_utterance env now st w payload =
     (let st1 = st\<lparr>request_count := request_count st + 1\<rparr>
      in case payload of
           PDict kvs \<Rightarrow>
             (let agent = dict_get kvs ''agent'' (PStr ''unknown'');
                  utterance = dict_get kvs ''utterance'' (PStr [])
              in case parse_timestamp env now kvs of
                   Inl e \<Rightarrow> (error_response e payload, st1, w)
                 | Inr timestamp \<Rightarrow>
                     (let engine_name = dict_get kvs ''engine'' (PStr ''gtts'');
                          voice_type = dict_get kvs ''voice_type'' (PStr ''neutral'');
                          language = dict_get kvs ''language'' (PStr ''en'');
                          speed = dict_get kvs ''speed'' (PFloat (FFinite False 1 0))
                      in case is_blank utterance of
                           Inl e \<Rightarrow> (error_response e payload, st1, w)
                         | Inr blank \<Rightarrow>
                             if blank then (BadRequest, st1, w)
                             else process env st1 w payload agent utterance engine_name
                                    (build_options agent timestamp engine_name voice_type
                                       language speed)))
         | _ \<Rightarrow> (error_response (AttributeError ''get'') payload, st1, w))"

text \<open>\<^verbatim>\<open>DELETE /cache\<close>.\<close>

definition clear_cache :: "app_state \<Rightarrow> app_state" where
  "clear_cache st = st\<lparr>cache := Map.empty\<rparr>"

section \<open>Derived notions and example data\<close>

text \<open>
  Names for three values that \<^verbatim>\<open>check_request\<close> computes on its way: the API key it
  uses, the identifier it counts the request under, and the outcome of its key check
  (the 401 it raises before it looks at the rate limiter, if any).
\<close>

definition effective_api_key :: "request \<Rightarrow> string option" where
  "effective_api_key req = py_or (header_api_key req) (query_api_key req)"

definition rate_identifier :: "request \<Rightarrow> string" where
  "rate_identifier req =
     (if truthy_str (effective_api_key req) then the (effective_api_key req)
      else (case client_host req of Some h \<Rightarrow> h | None \<Rightarrow> ''unknown''))"

definition key_check :: "SecurityMiddleware \<Rightarrow> request \<Rightarrow> http_exception option" where
  "key_check sm req =
     (if truthy_str (effective_api_key req)
      then (case validate_key (api_validator sm) (the (effective_api_key req)) of
              None \<Rightarrow> Some (HTTPException 401 ''Invalid API key'' [])
            | Some md \<Rightarrow> if md = [] then Some (HTTPException 401 ''Invalid API key'' [])
                         else None)
      else if require_api_key sm then Some (HTTPException 401 ''API key required'' [])
      else None)"

text \<open>The allow/deny part of a result of \<^verbatim>\<open>check_request\<close>: the exception, or just "passed".\<close>

definition verdict :: "http_exception + check_result \<Rightarrow> http_exception option" where
  "verdict r = (case r of Inl e \<Rightarrow> Some e | Inr _ \<Rightarrow> None)"

text \<open>
  The options \<^verbatim>\<open>receive_utterance\<close> builds from a JSON object and its parsed timestamp
  (lines 212 to 241), and the world in which its cache lookup has been logged.
\<close>

definition options_of :: "(string \<times> pyval) list \<Rightarrow> pyval \<Rightarrow> options" where
  "options_of kvs timestamp =
     build_options (dict_get kvs ''agent'' (PStr ''unknown'')) timestamp
       (dict_get kvs ''engine'' (PStr ''gtts''))
       (dict_get kvs ''voice_type'' (PStr ''neutral''))
       (dict_get kvs ''language'' (PStr ''en''))
       (dict_get kvs ''speed'' (PFloat (FFinite False 1 0)))"

definition after_lookup :: "string \<Rightarrow> world \<Rightarrow> world" where
  "after_lookup k w = log_event (CacheLookup k) (log_event (KeyComputed k) w)"

text \<open>
  A middleware with one valid key, three requests an identifier in 60 seconds, and the
  address 10.0.0.7 at its limit; the same middleware with nothing recorded; requests from two
  addresses, without and with the key.
\<close>

definition demo_validator :: APIKeyValidator where
  "demo_validator = \<lparr>valid_keys = [''tts_key1'' \<mapsto> [(''owner'', PStr ''alice'')]]\<rparr>"

definition demo_middleware_full :: SecurityMiddleware where
  "demo_middleware_full =
     \<lparr>rate_limiter = \<lparr>max_requests = 3, window_seconds = 60,
                       requests = (\<lambda>_. [])(''10.0.0.7'' := [41, 42, 43])\<rparr>,
      api_validator = demo_validator, require_api_key = False\<rparr>"

definition demo_middleware_fresh :: SecurityMiddleware where
  "demo_middleware_fresh =
     \<lparr>rate_limiter = RateLimiter_init 3 60,
      api_validator = demo_validator, require_api_key = False\<rparr>"

definition demo_req_anonymous :: request where
  "demo_req_anonymous =
     \<lparr>client_host = Some ''10.0.0.7'', header_api_key = None, query_api_key = None\<rparr>"

definition demo_req_key :: request where
  "demo_req_key =
     \<lparr>client_host = Some ''10.0.0.7'', header_api_key = Some ''tts_key1'',
      query_api_key = None\<rparr>"

definition demo_req_key_elsewhere :: request where
  "demo_req_key_elsewhere =
     \<lparr>client_host = Some ''192.168.1.9'', header_api_key = None,
      query_api_key = Some ''tts_key1''\<rparr>"

definition demo_req_bad_key :: request where
  "demo_req_bad_key =
     \<lparr>client_host = Some ''10.0.0.7'', header_api_key = Some ''guess'',
      query_api_key = None\<rparr>"

text \<open>
  The key's own window at its limit, under two different histories of the addresses; and
  a validator that accepts a key spelled like the address 10.0.0.7, with a middleware
  that has seen nothing and the same middleware after three requests without a key from
  that address.
\<close>

definition demo_middleware_key_full :: SecurityMiddleware where
  "demo_middleware_key_full =
     \<lparr>rate_limiter = \<lparr>max_requests = 3, window_seconds = 60,
                       requests = (\<lambda>_. [])(''tts_key1'' := [41, 42, 43])\<rparr>,
      api_validator = demo_validator, require_api_key = False\<rparr>"

definition demo_middleware_key_full_busy :: SecurityMiddleware where
  "demo_middleware_key_full_busy =
     \<lparr>rate_limiter = \<lparr>max_requests = 3, window_seconds = 60,
                       requests = (\<lambda>_. [])(''tts_key1'' := [41, 42, 43],
                                              ''192.168.1.9'' := [90, 95])\<rparr>,
      api_validator = demo_validator, require_api_key = False\<rparr>"

definition demo_middleware_address_key :: SecurityMiddleware where
  "demo_middleware_address_key =
     \<lparr>rate_limiter = RateLimiter_init 3 60,
      api_validator = \<lparr>valid_keys = [''10.0.0.7'' \<mapsto> [(''owner'', PStr ''carol'')]]\<rparr>,
      require_api_key = False\<rparr>"

definition demo_middleware_address_key_used :: SecurityMiddleware where
  "demo_middleware_address_key_used =
     snd (check_request
            (snd (check_request
                    (snd (check_request demo_middleware_address_key demo_req_anonymous 41 41))
                    demo_req_anonymous 42 42))
            demo_req_anonymous 43 43)"

definition demo_req_address_key :: request where
  "demo_req_address_key =
     \<lparr>client_host = Some ''10.0.0.7'', header_api_key = Some ''10.0.0.7'',
      query_api_key = None\<rparr>"

text \<open>
  A world for examples: JSON and \<^verbatim>\<open>str\<close> in a simple form, the identity as digest, a
  parser that rejects one text, gTTS and OpenAI not installed, espeak and the disk
  working. The variants below break espeak, break espeak and the disk, and install gTTS
  with a network that is down.
\<close>

definition demo_json :: "pyval \<Rightarrow> exn + string" where
  "demo_json v =
     (case v of
        PNone \<Rightarrow> Inr ''null''
      | PBool b \<Rightarrow> Inr (if b then ''true'' else ''false'')
      | PInt i \<Rightarrow> Inr (str_int i)
      | PFloat f \<Rightarrow> Inr ''1.0''
      | PStr s \<Rightarrow> Inr ([CHR 0x22] @ s @ [CHR 0x22])
      | PList xs \<Rightarrow> Inr ''[]''
      | PDict kvs \<Rightarrow> Inr ''{}''
      | PDatetime d \<Rightarrow> Inl (TypeError ''Object of type datetime is not JSON serializable''))"

definition demo_env :: env where
  "demo_env =
     \<lparr>md5_hexdigest = (\<lambda>s. s),
      json_dumps_value = demo_json,
      fromisoformat =
        (\<lambda>s. if s = ''not-a-date'' then Inl (ValueError ''Invalid isoformat string'')
              else Inr s),
      str_other = (\<lambda>v. ''None''),
      path_join = (\<lambda>d n. d @ ''/'' @ n),
      espeak_speed = (\<lambda>v. Inr ''150''),
      GTTS_AVAILABLE = False,
      openai_client = False,
      external = (\<lambda>n c. None),
      espeak_run = (\<lambda>n cmd text. Inr (0, []))\<rparr>"

definition demo_env_no_espeak :: env where
  "demo_env_no_espeak =
     demo_env\<lparr>espeak_run := (\<lambda>n cmd text. Inl (LibraryError ''No such file: espeak''))\<rparr>"

definition demo_env_espeak_exit1 :: env where
  "demo_env_espeak_exit1 =
     demo_env\<lparr>espeak_run := (\<lambda>n cmd text. Inr (1, ''espeak: cannot open output''))\<rparr>"

definition demo_env_no_disk :: env where
  "demo_env_no_disk =
     demo_env_no_espeak\<lparr>external := (\<lambda>n c. Some (LibraryError ''No space left on device''))\<rparr>"

definition demo_env_gtts_offline :: env where
  "demo_env_gtts_offline =
     demo_env\<lparr>GTTS_AVAILABLE := True,
              external := (\<lambda>n c. case c of GttsConstruct t opts \<Rightarrow> None
                                   | GttsSave p \<Rightarrow> Some (LibraryError ''Connection error'')
                                   | _ \<Rightarrow> None)\<rparr>"

definition st0 :: app_state where
  "st0 = \<lparr>request_count = 0, cache = Map.empty\<rparr>"

definition w0 :: world where
  "w0 = \<lparr>files = Map.empty, trace = []\<rparr>"

definition demo_now :: datetime where
  "demo_now = ''2024-05-01T10:00:00''"

definition demo_kvs :: "string \<Rightarrow> string \<Rightarrow> (string \<times> pyval) list" where
  "demo_kvs utterance engine_name =
     [(''agent'', PStr ''bot1''), (''utterance'', PStr utterance),
      (''engine'', PStr engine_name)]"

definition demo_payload :: "string \<Rightarrow> string \<Rightarrow> pyval" where
  "demo_payload utterance engine_name = PDict (demo_kvs utterance engine_name)"

definition demo_wav :: string where
  "demo_wav = ''audio_files/bot1_2024-05-01T10-00-00.wav''"

definition demo_silent_wav :: string where
  "demo_silent_wav = ''audio_files/bot1_2024-05-01T10-00-00_silent.wav''"

text \<open>The cache key of the example request for an utterance and an engine name.\<close>

definition demo_key :: "string \<Rightarrow> string \<Rightarrow> string" where
  "demo_key utterance engine_name =
     projr (generate_cache_key demo_env (PStr utterance)
              (build_options (PStr ''bot1'') (PDatetime demo_now) (PStr engine_name)
                 (PStr ''neutral'') (PStr ''en'') (PFloat (FFinite False 1 0))))"

text \<open>
  Two option dictionaries that differ in agent and timestamp (the second has none, and
  an entry of its own) and agree on engine, voice type, language and speed.
\<close>

definition demo_options_bot1 :: options where
  "demo_options_bot1 =
     [''agent'' \<mapsto> PStr ''bot1'', ''timestamp'' \<mapsto> PDatetime ''2024-05-01T10:00:00'',
      ''engine'' \<mapsto> PStr ''gtts'', ''voice_type'' \<mapsto> PStr ''female'',
      ''language'' \<mapsto> PStr ''en'', ''speed'' \<mapsto> PInt 1]"

definition demo_options_bot2 :: options where
  "demo_options_bot2 =
     [''agent'' \<mapsto> PStr ''bot2'', ''avatar_id'' \<mapsto> PStr ''a7'',
      ''engine'' \<mapsto> PStr ''gtts'', ''voice_type'' \<mapsto> PStr ''female'',
      ''language'' \<mapsto> PStr ''en'', ''speed'' \<mapsto> PInt 1]"

section \<open>Properties of the rate limiter\<close>

lemma clean_old_dropWhile: "clean_old ws q = dropWhile (\<lambda>t. t < ws) q"
  by (induction q) auto

lemma clean_old_sorted_filter:
  "sorted q \<Longrightarrow> clean_old ws q = filter (\<lambda>t. ws \<le> t) q"
proof (induction q)
  case Nil
  then show ?case by simp
next
  case (Cons t q)
  show ?case
  proof (cases "t < ws")
    case True
    with Cons show ?thesis by simp
  next
    case False
    with Cons.prems have "\<forall>u \<in> set (t # q). ws \<le> u" by auto
    then have "filter (\<lambda>t. ws \<le> t) (t # q) = t # q"
      by (simp only: filter_True)
    with False show ?thesis by simp
  qed
qed

lemma is_allowed_dropWhile:
  "is_allowed rl i now =
     (let q = dropWhile (\<lambda>t. t < now - of_int (window_seconds rl)) (requests rl i)
      in if int (length q) < max_requests rl
         then (True, rl\<lparr>requests := (requests rl)(i := q @ [now])\<rparr>)
         else (False, rl\<lparr>requests := (requests rl)(i := q)\<rparr>))"
  by (simp add: is_allowed_def clean_old_dropWhile)

text \<open>
  With a clock that does not run backwards the windows stay in time order and no
  recorded time lies in the future.
\<close>

lemma is_allowed_keeps_sorted:
  assumes "sorted (requests rl j)" and "\<forall>t \<in> set (requests rl j). t \<le> now"
  shows "sorted (requests (snd (is_allowed rl i now)) j)
         \<and> (\<forall>t \<in> set (requests (snd (is_allowed rl i now)) j). t \<le> now)"
proof -
  let ?q = "dropWhile (\<lambda>t. t < now - of_int (window_seconds rl)) (requests rl j)"
  have s: "sorted ?q" using assms(1) by (rule sorted_dropWhile)
  have b: "\<forall>t \<in> set ?q. t \<le> now" using assms(2) by (meson set_dropWhileD)
  have s': "sorted (?q @ [now])" using s b by (simp add: sorted_append)
  show ?thesis
    using assms s s' b by (cases "i = j") (simp_all add: is_allowed_dropWhile Let_def)
qed

lemma RateLimiter_init_sorted: "sorted (requests (RateLimiter_init m ws) j)"
  by (simp add: RateLimiter_init_def)

lemma get_reset_time_hd:
  "get_reset_time rl i now'
     = (if requests rl i = [] then 0
        else hd (requests rl i) + of_int (window_seconds rl) - now')"
  by (simp add: get_reset_time_def split: list.splits)

text \<open>
  Claim C5, as amended. \<^verbatim>\<open>is_allowed\<close> cleans the window from the front only: it drops
  recorded times while the first one is older than \<open>now - window_seconds\<close> and stops at
  the first that is not. It allows, and then records \<open>now\<close> at the end, if and only if
  fewer than \<open>max_requests\<close> times are left; no other identifier's window changes. On a
  window in time order the times left are exactly those not older than
  \<open>now - window_seconds\<close>. \<^verbatim>\<open>get_reset_time\<close> is 0 on an empty window and otherwise
  the first recorded time plus \<open>window_seconds\<close> minus the time of the reading. With
  \<open>max_requests = 3\<close> and \<open>window_seconds = 60\<close>, from an empty limiter: three calls at
  \<open>t1 \<le> t2 \<le> t3\<close> are allowed, a fourth at \<open>t4\<close> is denied, \<^verbatim>\<open>get_reset_time\<close> read at
  \<open>t5\<close>, less than 60 seconds after the first call, is positive, a call exactly 60
  seconds after the first is still denied with reset time 0, and a call at \<open>t6\<close>, more
  than 60 seconds after the first, is allowed again.
\<close>

theorem is_allowed_front_pruning:
  fixes rl :: RateLimiter and i :: string and now now' t1 t2 t3 t4 t5 t6 :: rat
  assumes "t1 \<le> t2" and "t2 \<le> t3" and "t3 \<le> t4" and "t4 \<le> t5" and "t5 < t1 + 60"
    and "t1 + 60 < t6"
  shows
    "(let kept = dropWhile (\<lambda>t. t < now - of_int (window_seconds rl)) (requests rl i);
          (allowed, rl') = is_allowed rl i now
      in (allowed \<longleftrightarrow> int (length kept) < max_requests rl)
         \<and> requests rl' i = (if allowed then kept @ [now] else kept)
         \<and> (\<forall>j. j \<noteq> i \<longrightarrow> requests rl' j = requests rl j)
         \<and> max_requests rl' = max_requests rl
         \<and> window_seconds rl' = window_seconds rl)
     \<and> (sorted (requests rl i) \<longrightarrow>
          dropWhile (\<lambda>t. t < now - of_int (window_seconds rl)) (requests rl i)
            = filter (\<lambda>t. now - of_int (window_seconds rl) \<le> t) (requests rl i))
     \<and> get_reset_time rl i now'
          = (if requests rl i = [] then 0
             else hd (requests rl i) + of_int (window_seconds rl) - now')
     \<and> (let r0 = RateLimiter_init 3 60;
             (a1, r1) = is_allowed r0 i t1;
             (a2, r2) = is_allowed r1 i t2;
             (a3, r3) = is_allowed r2 i t3;
             (a4, r4) = is_allowed r3 i t4;
             (a5, r5) = is_allowed r4 i (t1 + 60);
             (a6, r6) = is_allowed r4 i t6
         in a1 \<and> a2 \<and> a3 \<and> \<not> a4
            \<and> requests r4 i = [t1, t2, t3]
            \<and> 0 < get_reset_time r4 i t5
            \<and> get_reset_time r0 i t5 = 0
            \<and> \<not> a5 \<and> get_reset_time r5 i (t1 + 60) = 0
            \<and> a6)"
proof -
  have general:
    "(let kept = dropWhile (\<lambda>t. t < now - of_int (window_seconds rl)) (requests rl i);
          (allowed, rl') = is_allowed rl i now
      in (allowed \<longleftrightarrow> int (length kept) < max_requests rl)
         \<and> requests rl' i = (if allowed then kept @ [now] else kept)
         \<and> (\<forall>j. j \<noteq> i \<longrightarrow> requests rl' j = requests rl j)
         \<and> max_requests rl' = max_requests rl
         \<and> window_seconds rl' = window_seconds rl)"
    by (simp add: is_allowed_dropWhile Let_def)
  have ordered:
    "sorted (requests rl i) \<longrightarrow>
       dropWhile (\<lambda>t. t < now - of_int (window_seconds rl)) (requests rl i)
         = filter (\<lambda>t. now - of_int (window_seconds rl) \<le> t) (requests rl i)"
    using clean_old_sorted_filter [of "requests rl i" "now - of_int (window_seconds rl)"]
    by (simp add: clean_old_dropWhile)
  have scenario:
    "(let r0 = RateLimiter_init 3 60;
             (a1, r1) = is_allowed r0 i t1;
             (a2, r2) = is_allowed r1 i t2;
             (a3, r3) = is_allowed r2 i t3;
             (a4, r4) = is_allowed r3 i t4;
             (a5, r5) = is_allowed r4 i (t1 + 60);
             (a6, r6) = is_allowed r4 i t6
         in a1 \<and> a2 \<and> a3 \<and> \<not> a4
            \<and> requests r4 i = [t1, t2, t3]
            \<and> 0 < get_reset_time r4 i t5
            \<and> get_reset_time r0 i t5 = 0
            \<and> \<not> a5 \<and> get_reset_time r5 i (t1 + 60) = 0
            \<and> a6)"
    using assms
    by (simp add: is_allowed_def RateLimiter_init_def get_reset_time_def Let_def)
  from general ordered get_reset_time_hd [of rl i now'] scenario
  show ?thesis by (intro conjI)
qed

theorem is_allowed_front_pruning_witness:
  "(0::rat) \<le> 10 \<and> (10::rat) \<le> 20 \<and> (20::rat) \<le> 30 \<and> (30::rat) \<le> 40
   \<and> (40::rat) < 0 + 60 \<and> (0::rat) + 60 < 61
   \<and> sorted [10, 20, 100 :: rat]
   \<and> is_allowed \<lparr>max_requests = 3, window_seconds = 60,
                   requests = (\<lambda>_. [10, 20, 100])\<rparr> ''10.0.0.7'' 75
       = (True, \<lparr>max_requests = 3, window_seconds = 60,
                  requests = (\<lambda>_. [10, 20, 100])(''10.0.0.7'' := [20, 100, 75])\<rparr>)
   \<and> get_reset_time \<lparr>max_requests = 3, window_seconds = 60,
                       requests = (\<lambda>_. [10, 20, 100])\<rparr> ''10.0.0.7'' 30 = 40
   \<and> \<not> fst (is_allowed \<lparr>max_requests = 3, window_seconds = 60,
                       requests = (\<lambda>_. [0, 10, 20])\<rparr> ''10.0.0.7'' 30)
   \<and> get_reset_time \<lparr>max_requests = 3, window_seconds = 60,
                       requests = (\<lambda>_. [0, 10, 20])\<rparr> ''10.0.0.7'' 40 = 20
   \<and> \<not> fst (is_allowed \<lparr>max_requests = 3, window_seconds = 60,
                       requests = (\<lambda>_. [0, 10, 20])\<rparr> ''10.0.0.7'' 60)
   \<and> fst (is_allowed \<lparr>max_requests = 3, window_seconds = 60,
                       requests = (\<lambda>_. [0, 10, 20])\<rparr> ''10.0.0.7'' 61)"
  using is_allowed_front_pruning
          [where rl = "\<lparr>max_requests = 3, window_seconds = 60, requests = (\<lambda>_. [10, 20, 100])\<rparr>"
             and i = "''10.0.0.7''" and now = 75 and now' = 30
             and ?t1.0 = 0 and ?t2.0 = 10 and ?t3.0 = 20 and ?t4.0 = 30 and ?t5.0 = 40
             and ?t6.0 = 61]
  by (simp add: is_allowed_def get_reset_time_def RateLimiter_init_def Let_def)

text \<open>
  Claim C5 fails as stated in two places. The cleaning stops at the first recorded time
  that is not old: when the clock steps back (calls at 100, 50 and 120 with two requests
  in 60 seconds) the time 50 stays behind 100, the call at 120 counts it and is denied,
  although only one recorded time is inside the window. And a call exactly 60 seconds
  after three calls at time 0 is still denied, with reset time 0.
\<close>

theorem is_allowed_counterexample:
  "requests (snd (is_allowed (snd (is_allowed (RateLimiter_init 2 60) ''10.0.0.7'' 100))
                    ''10.0.0.7'' 50)) ''10.0.0.7'' = [100, 50]
   \<and> filter (\<lambda>t. (120::rat) - 60 \<le> t) [100, 50] = [100]
   \<and> \<not> fst (is_allowed (snd (is_allowed (snd (is_allowed (RateLimiter_init 2 60)
                 ''10.0.0.7'' 100)) ''10.0.0.7'' 50)) ''10.0.0.7'' 120)
   \<and> requests (snd (is_allowed (snd (is_allowed (snd (is_allowed (RateLimiter_init 2 60)
                 ''10.0.0.7'' 100)) ''10.0.0.7'' 50)) ''10.0.0.7'' 120)) ''10.0.0.7''
       = [100, 50]
   \<and> \<not> fst (is_allowed \<lparr>max_requests = 3, window_seconds = 60,
                         requests = (\<lambda>_. [0, 0, 0])\<rparr> ''10.0.0.7'' 60)
   \<and> get_reset_time \<lparr>max_requests = 3, window_seconds = 60,
                      requests = (\<lambda>_. [0, 0, 0])\<rparr> ''10.0.0.7'' 60 = 0"
  by (simp add: is_allowed_def get_reset_time_def RateLimiter_init_def Let_def)

section \<open>Properties of the security middleware\<close>

lemma str_int_1: "str_int (py_int 1) = ''1''"
  by (simp add: str_int_def py_int_def str_nat.simps)

lemma check_request_unfold:
  "check_request sm req now now' =
     (case key_check sm req of
        Some e \<Rightarrow> (Inl e, sm)
      | None \<Rightarrow>
          (case is_allowed (rate_limiter sm) (rate_identifier req) now of
             (False, rl') \<Rightarrow>
               (Inl (HTTPException 429
                  (''Rate limit exceeded. Try again in ''
                     @ str_int (py_int (get_reset_time rl' (rate_identifier req) now'))
                     @ '' seconds'')
                  [(''Retry-After'',
                    str_int (py_int (get_reset_time rl' (rate_identifier req) now')))]),
                sm\<lparr>rate_limiter := rl'\<rparr>)
           | (True, rl') \<Rightarrow>
               (Inr \<lparr>res_client_ip = (case client_host req of Some h \<Rightarrow> h | None \<Rightarrow> ''unknown''),
                     res_api_key = effective_api_key req,
                     res_key_metadata =
                       (if truthy_str (effective_api_key req)
                        then validate_key (api_validator sm) (the (effective_api_key req))
                        else None),
                     res_identifier = rate_identifier req\<rparr>,
                sm\<lparr>rate_limiter := rl'\<rparr>)))"
  by (auto simp: check_request_def key_check_def rate_identifier_def effective_api_key_def
        Let_def split: option.splits prod.splits bool.splits)

lemma is_allowed_depends_on_own_window:
  assumes "requests rl1 k = requests rl2 k"
    and "max_requests rl1 = max_requests rl2"
    and "window_seconds rl1 = window_seconds rl2"
  shows "fst (is_allowed rl1 k now) = fst (is_allowed rl2 k now)
         \<and> requests (snd (is_allowed rl1 k now)) k = requests (snd (is_allowed rl2 k now)) k"
  using assms by (simp add: is_allowed_def Let_def)

lemma is_allowed_other_windows:
  "j \<noteq> k \<Longrightarrow> requests (snd (is_allowed rl k now)) j = requests rl j"
  by (simp add: is_allowed_def Let_def)

text \<open>
  Claim C6, as amended. When a request carries an API key \<open>k\<close> that the validator
  accepts, \<^verbatim>\<open>check_request\<close> is \<^verbatim>\<open>is_allowed\<close> on the window recorded under the string
  \<open>k\<close>: it passes exactly when fewer than \<open>max_requests\<close> times are left there after
  cleaning, then records \<open>now\<close> under \<open>k\<close> and returns \<open>k\<close> as the identifier; otherwise
  it raises 429 with the reset time of that window. It changes no other window. So two
  middlewares that agree on the window under \<open>k\<close> and on the limits give the same
  verdict to two requests with the key, whatever the client addresses are and whatever
  is recorded under any identifier other than \<open>k\<close>. A client without a key whose
  address is spelled like \<open>k\<close> is counted in that same window.
\<close>

theorem api_key_is_identifier:
  assumes "py_or (header_api_key req1) (query_api_key req1) = Some k"
    and "py_or (header_api_key req2) (query_api_key req2) = Some k"
    and "k \<noteq> []"
    and "validate_key (api_validator sm1) k = Some md"
    and "validate_key (api_validator sm2) k = Some md"
    and "md \<noteq> []"
    and "requests (rate_limiter sm1) k = requests (rate_limiter sm2) k"
    and "max_requests (rate_limiter sm1) = max_requests (rate_limiter sm2)"
    and "window_seconds (rate_limiter sm1) = window_seconds (rate_limiter sm2)"
  shows "check_request sm1 req1 now now'
           = (case is_allowed (rate_limiter sm1) k now of
                (True, rl') \<Rightarrow>
                  (Inr \<lparr>res_client_ip =
                          (case client_host req1 of Some h \<Rightarrow> h | None \<Rightarrow> ''unknown''),
                        res_api_key = Some k, res_key_metadata = Some md,
                        res_identifier = k\<rparr>,
                   sm1\<lparr>rate_limiter := rl'\<rparr>)
              | (False, rl') \<Rightarrow>
                  (Inl (HTTPException 429
                          (''Rate limit exceeded. Try again in ''
                             @ str_int (py_int (get_reset_time rl' k now')) @ '' seconds'')
                          [(''Retry-After'', str_int (py_int (get_reset_time rl' k now')))]),
                   sm1\<lparr>rate_limiter := rl'\<rparr>))
         \<and> (verdict (fst (check_request sm1 req1 now now')) = None
              \<longleftrightarrow> int (length (clean_old (now - of_int (window_seconds (rate_limiter sm1)))
                                 (requests (rate_limiter sm1) k)))
                    < max_requests (rate_limiter sm1))
         \<and> requests (rate_limiter (snd (check_request sm1 req1 now now'))) k
             = clean_old (now - of_int (window_seconds (rate_limiter sm1)))
                 (requests (rate_limiter sm1) k)
               @ (if verdict (fst (check_request sm1 req1 now now')) = None then [now] else [])
         \<and> (\<forall>j. j \<noteq> k \<longrightarrow>
               requests (rate_limiter (snd (check_request sm1 req1 now now'))) j
                 = requests (rate_limiter sm1) j)
         \<and> verdict (fst (check_request sm1 req1 now now'))
             = verdict (fst (check_request sm2 req2 now now'))
         \<and> requests (rate_limiter (snd (check_request sm1 req1 now now'))) k
             = requests (rate_limiter (snd (check_request sm2 req2 now now'))) k"
proof -
  have e1: "effective_api_key req1 = Some k" and e2: "effective_api_key req2 = Some k"
    using assms(1,2) by (simp_all add: effective_api_key_def)
  have id1: "rate_identifier req1 = k" and id2: "rate_identifier req2 = k"
    using e1 e2 assms(3) by (simp_all add: rate_identifier_def truthy_str_def)
  have kc1: "key_check sm1 req1 = None" and kc2: "key_check sm2 req2 = None"
    using e1 e2 assms(3-6) by (simp_all add: key_check_def truthy_str_def)
  have tk: "truthy_str (Some k)" using assms(3) by (simp add: truthy_str_def)
  have run1: "check_request sm1 req1 now now'
           = (case is_allowed (rate_limiter sm1) k now of
                (True, rl') \<Rightarrow>
                  (Inr \<lparr>res_client_ip =
                          (case client_host req1 of Some h \<Rightarrow> h | None \<Rightarrow> ''unknown''),
                        res_api_key = Some k, res_key_metadata = Some md,
                        res_identifier = k\<rparr>,
                   sm1\<lparr>rate_limiter := rl'\<rparr>)
              | (False, rl') \<Rightarrow>
                  (Inl (HTTPException 429
                          (''Rate limit exceeded. Try again in ''
                             @ str_int (py_int (get_reset_time rl' k now')) @ '' seconds'')
                          [(''Retry-After'', str_int (py_int (get_reset_time rl' k now')))]),
                   sm1\<lparr>rate_limiter := rl'\<rparr>))"
    using e1 id1 kc1 tk assms(4)
    by (simp add: check_request_unfold split: prod.splits bool.splits)
  have run2: "verdict (fst (check_request sm2 req2 now now'))
                = (case is_allowed (rate_limiter sm2) k now of
                     (True, rl') \<Rightarrow> None
                   | (False, rl') \<Rightarrow>
                       Some (HTTPException 429
                          (''Rate limit exceeded. Try again in ''
                             @ str_int (py_int (get_reset_time rl' k now')) @ '' seconds'')
                          [(''Retry-After'', str_int (py_int (get_reset_time rl' k now')))]))"
      and after2: "rate_limiter (snd (check_request sm2 req2 now now'))
                     = snd (is_allowed (rate_limiter sm2) k now)"
    using id2 kc2
    by (simp_all add: check_request_unfold verdict_def split: prod.splits bool.splits)
  obtain a1 r1 where a1: "is_allowed (rate_limiter sm1) k now = (a1, r1)"
    by (cases "is_allowed (rate_limiter sm1) k now")
  obtain a2 r2 where a2: "is_allowed (rate_limiter sm2) k now = (a2, r2)"
    by (cases "is_allowed (rate_limiter sm2) k now")
  have a1_iff: "a1 \<longleftrightarrow> int (length (clean_old (now - of_int (window_seconds (rate_limiter sm1)))
                                 (requests (rate_limiter sm1) k)))
                    < max_requests (rate_limiter sm1)"
    and r1_k: "requests r1 k
                 = clean_old (now - of_int (window_seconds (rate_limiter sm1)))
                     (requests (rate_limiter sm1) k) @ (if a1 then [now] else [])"
    using a1 by (auto simp: is_allowed_def Let_def split: if_splits)
  from is_allowed_depends_on_own_window [OF assms(7-9), of now] a1 a2
  have same: "a1 = a2" "requests r1 k = requests r2 k" by simp_all
  have ws: "window_seconds r1 = window_seconds r2"
    using a1 a2 assms(9) by (auto simp: is_allowed_def Let_def split: if_splits)
  have reset: "get_reset_time r1 k now' = get_reset_time r2 k now'"
    using same ws by (simp add: get_reset_time_def split: list.splits)
  have others: "\<forall>j. j \<noteq> k \<longrightarrow> requests r1 j = requests (rate_limiter sm1) j"
    using is_allowed_other_windows [of _ k "rate_limiter sm1" now] a1 by simp
  have v1: "verdict (fst (check_request sm1 req1 now now')) = None \<longleftrightarrow> a1"
    and after1: "rate_limiter (snd (check_request sm1 req1 now now')) = r1"
    using run1 a1 by (cases a1; simp add: verdict_def)+
  have v12: "verdict (fst (check_request sm1 req1 now now'))
               = verdict (fst (check_request sm2 req2 now now'))"
    using run1 run2 a1 a2 same reset by (cases a2) (simp_all add: verdict_def)
  have after2': "rate_limiter (snd (check_request sm2 req2 now now')) = r2"
    using after2 a2 by simp
  show ?thesis
    using run1 v1 a1_iff r1_k after1 after2' others v12 same
    by (intro conjI) simp_all
qed

theorem api_key_is_identifier_witness:
  "py_or (header_api_key demo_req_key) (query_api_key demo_req_key) = Some ''tts_key1''
   \<and> py_or (header_api_key demo_req_key_elsewhere) (query_api_key demo_req_key_elsewhere)
       = Some ''tts_key1''
   \<and> ''tts_key1'' \<noteq> []
   \<and> validate_key demo_validator ''tts_key1'' = Some [(''owner'', PStr ''alice'')]
   \<and> requests (rate_limiter demo_middleware_full) ''tts_key1''
       = requests (rate_limiter demo_middleware_fresh) ''tts_key1''
   \<and> requests (rate_limiter demo_middleware_full) ''10.0.0.7''
       \<noteq> requests (rate_limiter demo_middleware_fresh) ''10.0.0.7''
   \<and> fst (check_request demo_middleware_full demo_req_key 100 100)
       = Inr \<lparr>res_client_ip = ''10.0.0.7'', res_api_key = Some ''tts_key1'',
              res_key_metadata = Some [(''owner'', PStr ''alice'')],
              res_identifier = ''tts_key1''\<rparr>
   \<and> requests (rate_limiter (snd (check_request demo_middleware_full demo_req_key 100 100)))
        ''tts_key1'' = [100]
   \<and> requests (rate_limiter (snd (check_request demo_middleware_full demo_req_key 100 100)))
        ''10.0.0.7'' = [41, 42, 43]
   \<and> verdict (fst (check_request demo_middleware_fresh demo_req_key_elsewhere 100 100)) = None
   \<and> requests (rate_limiter demo_middleware_key_full) ''tts_key1''
       = requests (rate_limiter demo_middleware_key_full_busy) ''tts_key1''
   \<and> requests (rate_limiter demo_middleware_key_full) ''192.168.1.9''
       \<noteq> requests (rate_limiter demo_middleware_key_full_busy) ''192.168.1.9''
   \<and> fst (check_request demo_middleware_key_full demo_req_key 100 100)
       = Inl (HTTPException 429 ''Rate limit exceeded. Try again in 1 seconds''
                [(''Retry-After'', ''1'')])
   \<and> fst (check_request demo_middleware_key_full_busy demo_req_key_elsewhere 100 100)
       = Inl (HTTPException 429 ''Rate limit exceeded. Try again in 1 seconds''
                [(''Retry-After'', ''1'')])
   \<and> requests (rate_limiter (snd (check_request demo_middleware_key_full demo_req_key 100 100)))
        ''tts_key1'' = [41, 42, 43]"
proof -
  note defs = demo_req_key_def demo_req_key_elsewhere_def demo_middleware_full_def
    demo_middleware_fresh_def demo_middleware_key_full_def demo_middleware_key_full_busy_def
    demo_validator_def py_or_def truthy_str_def validate_key_def RateLimiter_init_def
  have k1: "py_or (header_api_key demo_req_key) (query_api_key demo_req_key) = Some ''tts_key1''"
    and k2: "py_or (header_api_key demo_req_key_elsewhere) (query_api_key demo_req_key_elsewhere)
               = Some ''tts_key1''"
    and ne: "''tts_key1'' \<noteq> []"
    and md: "[(''owner'', PStr ''alice'')] \<noteq> []"
    by (simp_all add: defs)
  have v: "validate_key demo_validator ''tts_key1'' = Some [(''owner'', PStr ''alice'')]"
    by (simp add: defs)
  have vf: "validate_key (api_validator demo_middleware_full) ''tts_key1''
              = Some [(''owner'', PStr ''alice'')]"
    and vr: "validate_key (api_validator demo_middleware_fresh) ''tts_key1''
               = Some [(''owner'', PStr ''alice'')]"
    and vk: "validate_key (api_validator demo_middleware_key_full) ''tts_key1''
               = Some [(''owner'', PStr ''alice'')]"
    and vb: "validate_key (api_validator demo_middleware_key_full_busy) ''tts_key1''
               = Some [(''owner'', PStr ''alice'')]"
    by (simp_all add: defs)
  have w1: "requests (rate_limiter demo_middleware_full) ''tts_key1''
              = requests (rate_limiter demo_middleware_fresh) ''tts_key1''"
    and m1: "max_requests (rate_limiter demo_middleware_full)
               = max_requests (rate_limiter demo_middleware_fresh)"
    and s1: "window_seconds (rate_limiter demo_middleware_full)
               = window_seconds (rate_limiter demo_middleware_fresh)"
    and w2: "requests (rate_limiter demo_middleware_key_full) ''tts_key1''
               = requests (rate_limiter demo_middleware_key_full_busy) ''tts_key1''"
    and m2: "max_requests (rate_limiter demo_middleware_key_full)
               = max_requests (rate_limiter demo_middleware_key_full_busy)"
    and s2: "window_seconds (rate_limiter demo_middleware_key_full)
               = window_seconds (rate_limiter demo_middleware_key_full_busy)"
    and d1: "requests (rate_limiter demo_middleware_full) ''10.0.0.7''
               \<noteq> requests (rate_limiter demo_middleware_fresh) ''10.0.0.7''"
    and d2: "requests (rate_limiter demo_middleware_key_full) ''192.168.1.9''
               \<noteq> requests (rate_limiter demo_middleware_key_full_busy) ''192.168.1.9''"
    by (simp_all add: defs)
  note pass = api_key_is_identifier [OF k1 k2 ne vf vr md w1 m1 s1, of 100 100]
  note deny = api_key_is_identifier [OF k1 k2 ne vk vb md w2 m2 s2, of 100 100]
  have p1: "fst (check_request demo_middleware_full demo_req_key 100 100)
       = Inr \<lparr>res_client_ip = ''10.0.0.7'', res_api_key = Some ''tts_key1'',
              res_key_metadata = Some [(''owner'', PStr ''alice'')],
              res_identifier = ''tts_key1''\<rparr>"
    and p2: "requests (rate_limiter (snd (check_request demo_middleware_full demo_req_key 100 100)))
        ''tts_key1'' = [100]"
    and p3: "requests (rate_limiter (snd (check_request demo_middleware_full demo_req_key 100 100)))
        ''10.0.0.7'' = [41, 42, 43]"
    using pass
    by (simp_all add: is_allowed_def Let_def demo_middleware_full_def demo_req_key_def)
  have p4: "verdict (fst (check_request demo_middleware_fresh demo_req_key_elsewhere 100 100))
              = None"
    using pass p1 by (simp add: verdict_def)
  have q1: "fst (check_request demo_middleware_key_full demo_req_key 100 100)
       = Inl (HTTPException 429 ''Rate limit exceeded. Try again in 1 seconds''
                [(''Retry-After'', ''1'')])"
    and q3: "requests (rate_limiter (snd (check_request demo_middleware_key_full demo_req_key 100 100)))
        ''tts_key1'' = [41, 42, 43]"
    using deny
    by (simp_all add: is_allowed_def get_reset_time_def Let_def demo_middleware_key_full_def
          str_int_1)
  have q2: "fst (check_request demo_middleware_key_full_busy demo_req_key_elsewhere 100 100)
       = Inl (HTTPException 429 ''Rate limit exceeded. Try again in 1 seconds''
                [(''Retry-After'', ''1'')])"
    using deny q1
    by (cases "fst (check_request demo_middleware_key_full_busy demo_req_key_elsewhere 100 100)")
       (simp_all add: verdict_def)
  from k1 k2 ne v w1 d1 p1 p2 p3 p4 w2 d2 q1 q2 q3 show ?thesis by (intro conjI)
qed

text \<open>
  Claim C6 fails as stated when the key is spelled like the client's address. The
  middleware accepts the key \<^verbatim>\<open>10.0.0.7\<close>; before anything is recorded a request with
  that key passes; after three requests without a key from the address 10.0.0.7, which
  are recorded under that address, the same request with the key is refused with 429:
  the verdict for a valid key depends on the history of the address.
\<close>

theorem api_key_precedence_counterexample:
  "validate_key (api_validator demo_middleware_address_key) ''10.0.0.7''
     = Some [(''owner'', PStr ''carol'')]
   \<and> verdict (fst (check_request demo_middleware_address_key demo_req_address_key 100 100))
       = None
   \<and> api_validator demo_middleware_address_key_used = api_validator demo_middleware_address_key
   \<and> requests (rate_limiter demo_middleware_address_key_used) ''10.0.0.7'' = [41, 42, 43]
   \<and> verdict (fst (check_request demo_middleware_address_key_used demo_req_address_key
                       100 100))
       = Some (HTTPException 429 ''Rate limit exceeded. Try again in 1 seconds''
                 [(''Retry-After'', ''1'')])"
  by (simp add: demo_middleware_address_key_used_def demo_middleware_address_key_def
        demo_req_address_key_def demo_req_anonymous_def check_request_def py_or_def
        truthy_str_def validate_key_def RateLimiter_init_def is_allowed_def
        get_reset_time_def verdict_def Let_def str_int_1)

text \<open>
  Claim C4, as amended. \<^verbatim>\<open>receive_utterance\<close> never calls the middleware (the counterexample
  below), so the claim is about \<^verbatim>\<open>check_request\<close> alone: it checks the API key first,
  and a request that fails that check gets its 401 with the rate limiter untouched; a
  request that passes it under an identifier with no quota left gets 429 with
  \<^verbatim>\<open>int(reset_time)\<close> as \<^verbatim>\<open>Retry-After\<close>, and nothing is recorded for it: the window is
  only cleaned.
\<close>

theorem middleware_rejects_exhausted_identifier:
  "(key_check sm req = Some e \<longrightarrow>
      check_request sm req now now' = (Inl e, sm) \<and> status_code e = 401)
   \<and> (key_check sm req = None
        \<and> \<not> fst (is_allowed (rate_limiter sm) (rate_identifier req) now) \<longrightarrow>
        (let rl' = snd (is_allowed (rate_limiter sm) (rate_identifier req) now);
             retry = str_int (py_int (get_reset_time rl' (rate_identifier req) now'))
         in check_request sm req now now'
              = (Inl (HTTPException 429
                        (''Rate limit exceeded. Try again in '' @ retry @ '' seconds'')
                        [(''Retry-After'', retry)]),
                 sm\<lparr>rate_limiter := rl'\<rparr>)
            \<and> requests rl' (rate_identifier req)
                = clean_old (now - of_int (window_seconds (rate_limiter sm)))
                    (requests (rate_limiter sm) (rate_identifier req))))"
proof -
  have unauthorised:
    "key_check sm req = Some e \<longrightarrow>
       check_request sm req now now' = (Inl e, sm) \<and> status_code e = 401"
    by (auto simp: check_request_unfold key_check_def split: if_splits option.splits)
  have limited:
    "key_check sm req = None
       \<and> \<not> fst (is_allowed (rate_limiter sm) (rate_identifier req) now) \<longrightarrow>
     (let rl' = snd (is_allowed (rate_limiter sm) (rate_identifier req) now);
          retry = str_int (py_int (get_reset_time rl' (rate_identifier req) now'))
      in check_request sm req now now'
           = (Inl (HTTPException 429
                     (''Rate limit exceeded. Try again in '' @ retry @ '' seconds'')
                     [(''Retry-After'', retry)]),
              sm\<lparr>rate_limiter := rl'\<rparr>)
         \<and> requests rl' (rate_identifier req)
             = clean_old (now - of_int (window_seconds (rate_limiter sm)))
                 (requests (rate_limiter sm) (rate_identifier req)))"
  proof (intro impI, elim conjE)
    assume kc: "key_check sm req = None"
      and denied: "\<not> fst (is_allowed (rate_limiter sm) (rate_identifier req) now)"
    obtain a rl' where ia: "is_allowed (rate_limiter sm) (rate_identifier req) now = (a, rl')"
      by (cases "is_allowed (rate_limiter sm) (rate_identifier req) now")
    with denied have a: "\<not> a" by simp
    have kept: "requests rl' (rate_identifier req)
                  = clean_old (now - of_int (window_seconds (rate_limiter sm)))
                      (requests (rate_limiter sm) (rate_identifier req))"
      using ia a by (auto simp: is_allowed_def Let_def split: if_splits)
    show "let rl' = snd (is_allowed (rate_limiter sm) (rate_identifier req) now);
              retry = str_int (py_int (get_reset_time rl' (rate_identifier req) now'))
          in check_request sm req now now'
               = (Inl (HTTPException 429
                         (''Rate limit exceeded. Try again in '' @ retry @ '' seconds'')
                         [(''Retry-After'', retry)]),
                  sm\<lparr>rate_limiter := rl'\<rparr>)
             \<and> requests rl' (rate_identifier req)
                 = clean_old (now - of_int (window_seconds (rate_limiter sm)))
                     (requests (rate_limiter sm) (rate_identifier req))"
      using kc ia a kept by (simp add: check_request_unfold Let_def)
  qed
  from unauthorised limited show ?thesis by (rule conjI)
qed

lemma demo_middleware_full_anonymous:
  "key_check demo_middleware_full demo_req_anonymous = None
   \<and> rate_identifier demo_req_anonymous = ''10.0.0.7''
   \<and> \<not> fst (is_allowed (rate_limiter demo_middleware_full) ''10.0.0.7'' 100)
   \<and> get_reset_time (snd (is_allowed (rate_limiter demo_middleware_full) ''10.0.0.7'' 100))
        ''10.0.0.7'' 100 = 1"
  by (simp add: key_check_def rate_identifier_def effective_api_key_def py_or_def
        truthy_str_def demo_middleware_full_def demo_req_anonymous_def is_allowed_def
        get_reset_time_def Let_def)

lemma demo_middleware_full_bad_key:
  "key_check demo_middleware_full demo_req_bad_key = Some (HTTPException 401 ''Invalid API key'' [])"
  by (simp add: key_check_def effective_api_key_def py_or_def truthy_str_def
        demo_middleware_full_def demo_req_bad_key_def demo_validator_def validate_key_def)

theorem middleware_rejects_exhausted_identifier_witness:
  "key_check demo_middleware_full demo_req_bad_key = Some (HTTPException 401 ''Invalid API key'' [])
   \<and> check_request demo_middleware_full demo_req_bad_key 100 100
       = (Inl (HTTPException 401 ''Invalid API key'' []), demo_middleware_full)
   \<and> key_check demo_middleware_full demo_req_anonymous = None
   \<and> \<not> fst (is_allowed (rate_limiter demo_middleware_full) (rate_identifier demo_req_anonymous) 100)
   \<and> fst (check_request demo_middleware_full demo_req_anonymous 100 100)
       = Inl (HTTPException 429 ''Rate limit exceeded. Try again in 1 seconds''
                [(''Retry-After'', ''1'')])
   \<and> requests (rate_limiter (snd (check_request demo_middleware_full demo_req_anonymous 100 100)))
        ''10.0.0.7'' = [41, 42, 43]"
  using middleware_rejects_exhausted_identifier
          [where sm = demo_middleware_full and req = demo_req_anonymous and now = 100
             and now' = 100]
        middleware_rejects_exhausted_identifier
          [where sm = demo_middleware_full and req = demo_req_bad_key and now = 100
             and now' = 100 and e = "HTTPException 401 ''Invalid API key'' []"]
        demo_middleware_full_anonymous demo_middleware_full_bad_key
  by (simp add: Let_def str_int_1 demo_middleware_full_def)
section \<open>Evaluating the webhook on the examples\<close>

lemmas webhook_defs =
  receive_utterance_def process_def success_response_def lookup_or_synthesize_def
  select_and_generate_def lookup_engine_def check_cache_def build_options_def
  is_blank_def parse_timestamp_def error_response_def dict_get_def
  generate_cache_key_def cache_data_def json_dumps_sorted_def options_get_def
  generate_audio_def system_try_def system_except_def gtts_try_def openai_try_def
  audio_path_def audio_filename_def py_str_def AUDIO_DIR_def tts_engines_def
  log_event_def write_file_def path_exists_def replace_char_def strip_def isspace_def

lemmas demo_defs =
  demo_env_def demo_env_no_espeak_def demo_env_no_disk_def demo_env_gtts_offline_def
  demo_json_def st0_def w0_def demo_now_def demo_payload_def demo_kvs_def demo_key_def
  demo_wav_def demo_silent_wav_def

lemma demo_first_request:
  "receive_utterance demo_env demo_now st0 w0 (demo_payload ''hello'' ''system'')
     = (Success ''audio_files/bot1_2024-05-01T10-00-00.wav'' (PStr ''bot1'') ''system'' False,
        \<lparr>request_count = 1,
          cache = [demo_key ''hello'' ''system'' \<mapsto> ''audio_files/bot1_2024-05-01T10-00-00.wav'']\<rparr>,
        \<lparr>files = [''audio_files/bot1_2024-05-01T10-00-00.wav'' \<mapsto> Audio],
          trace = [KeyComputed (demo_key ''hello'' ''system''),
                   CacheLookup (demo_key ''hello'' ''system''),
                   Synthesize ''system'']\<rparr>)"
  by (simp add: webhook_defs demo_defs Let_def)

text \<open>
  Claim C4 fails on the webhook: the middleware would answer this client with 429, and
  \<^verbatim>\<open>receive_utterance\<close>, which has no call of it, serves the request and runs an
  engine.
\<close>

theorem webhook_skips_middleware_counterexample:
  "fst (check_request demo_middleware_full demo_req_anonymous 100 100)
     = Inl (HTTPException 429 ''Rate limit exceeded. Try again in 1 seconds''
              [(''Retry-After'', ''1'')])
   \<and> http_status (fst (receive_utterance demo_env demo_now st0 w0
                          (demo_payload ''hello'' ''system''))) = 200
   \<and> Synthesize ''system''
        \<in> set (trace (snd (snd (receive_utterance demo_env demo_now st0 w0
                                    (demo_payload ''hello'' ''system'')))))"
proof -
  have "fst (check_request demo_middleware_full demo_req_anonymous 100 100)
          = Inl (HTTPException 429 ''Rate limit exceeded. Try again in 1 seconds''
                   [(''Retry-After'', ''1'')])"
    by (simp add: check_request_def demo_middleware_full_def demo_req_anonymous_def
          is_allowed_def get_reset_time_def py_or_def truthy_str_def Let_def str_int_1)
  then show ?thesis by (simp add: demo_first_request)
qed

section \<open>Properties of the cache key\<close>

text \<open>
  Claim C1. \<^verbatim>\<open>generate_cache_key\<close> reads its two arguments and nothing else (no state,
  no clock), and of the options only what \<^verbatim>\<open>options.get\<close> returns for \<^verbatim>\<open>engine\<close>,
  \<^verbatim>\<open>voice_type\<close>, \<^verbatim>\<open>language\<close> and \<^verbatim>\<open>speed\<close>: two option dictionaries that agree there
  give the same result for the same text, whatever their agent, timestamp or other
  entries are. So the options the webhook builds for two requests with the same
  utterance, engine, voice type, language and speed have the same key.
\<close>

theorem cache_key_reads_five_fields:
  assumes "\<forall>k \<in> {''engine'', ''voice_type'', ''language'', ''speed''}.
             options_get opts1 k = options_get opts2 k"
  shows "generate_cache_key env text opts1 = generate_cache_key env text opts2
         \<and> generate_cache_key env text
               (build_options agent1 timestamp1 engine_name voice_type language speed)
             = generate_cache_key env text
                 (build_options agent2 timestamp2 engine_name voice_type language speed)"
proof -
  from assms have "cache_data text opts1 = cache_data text opts2"
    by (simp add: cache_data_def)
  then have first: "generate_cache_key env text opts1 = generate_cache_key env text opts2"
    by (simp add: generate_cache_key_def)
  have "cache_data text (build_options agent1 timestamp1 engine_name voice_type language speed)
          = cache_data text (build_options agent2 timestamp2 engine_name voice_type language speed)"
    by (simp add: cache_data_def build_options_def options_get_def)
  then have second:
    "generate_cache_key env text
         (build_options agent1 timestamp1 engine_name voice_type language speed)
       = generate_cache_key env text
           (build_options agent2 timestamp2 engine_name voice_type language speed)"
    by (simp add: generate_cache_key_def)
  from first second show ?thesis by (rule conjI)
qed

theorem cache_key_reads_five_fields_witness:
  "options_get demo_options_bot1 ''engine'' = options_get demo_options_bot2 ''engine''
   \<and> options_get demo_options_bot1 ''voice_type'' = options_get demo_options_bot2 ''voice_type''
   \<and> options_get demo_options_bot1 ''language'' = options_get demo_options_bot2 ''language''
   \<and> options_get demo_options_bot1 ''speed'' = options_get demo_options_bot2 ''speed''
   \<and> options_get demo_options_bot1 ''agent'' \<noteq> options_get demo_options_bot2 ''agent''
   \<and> options_get demo_options_bot1 ''timestamp'' \<noteq> options_get demo_options_bot2 ''timestamp''
   \<and> generate_cache_key demo_env (PStr ''hello'') demo_options_bot1
       = generate_cache_key demo_env (PStr ''hello'') demo_options_bot2"
proof -
  have agree:
    "\<forall>k \<in> {''engine'', ''voice_type'', ''language'', ''speed''}.
       options_get demo_options_bot1 k = options_get demo_options_bot2 k"
    by (simp add: options_get_def demo_options_bot1_def demo_options_bot2_def)
  have differ:
    "options_get demo_options_bot1 ''agent'' \<noteq> options_get demo_options_bot2 ''agent''"
    "options_get demo_options_bot1 ''timestamp'' \<noteq> options_get demo_options_bot2 ''timestamp''"
    by (simp_all add: options_get_def demo_options_bot1_def demo_options_bot2_def)
  from cache_key_reads_five_fields [OF agree, of demo_env "PStr ''hello''"]
  have "generate_cache_key demo_env (PStr ''hello'') demo_options_bot1
          = generate_cache_key demo_env (PStr ''hello'') demo_options_bot2"
    by blast
  with agree differ show ?thesis by simp
qed

section \<open>Properties of the engines and the dispatcher\<close>

lemma gtts_try_trace: "trace (snd (gtts_try env n text opts w)) = trace w"
  by (simp add: gtts_try_def write_file_def split: option.splits sum.splits)

lemma openai_try_trace: "trace (snd (openai_try env n text opts w)) = trace w"
  by (simp add: openai_try_def write_file_def split: option.splits sum.splits)

lemma system_try_trace: "trace (snd (system_try env n text opts w)) = trace w"
  by (simp add: system_try_def write_file_def split: option.splits sum.splits prod.splits)

lemma system_except_trace: "trace (snd (system_except env n opts w)) = trace w"
  by (simp add: system_except_def write_file_def split: option.splits sum.splits)

lemma generate_audio_trace:
  "trace (snd (generate_audio env eng text opts w)) = trace w @ [Synthesize (name eng)]"
proof (cases eng)
  case GTTSEngine
  have "trace (snd (gtts_try env (length (trace w)) text opts
                      (log_event (Synthesize ''gtts'') w)))
          = trace w @ [Synthesize ''gtts'']"
    by (simp add: gtts_try_trace log_event_def)
  with GTTSEngine show ?thesis
    by (auto simp: generate_audio_def Let_def log_event_def split: prod.splits sum.splits)
next
  case OpenAITTSEngine
  have "trace (snd (openai_try env (length (trace w)) text opts
                      (log_event (Synthesize ''openai'') w)))
          = trace w @ [Synthesize ''openai'']"
    by (simp add: openai_try_trace log_event_def)
  with OpenAITTSEngine show ?thesis
    by (auto simp: generate_audio_def Let_def log_event_def split: prod.splits sum.splits)
next
  case SystemTTSEngine
  obtain r w2 where t: "system_try env (length (trace w)) text opts
                          (log_event (Synthesize ''system'') w) = (r, w2)"
    by (cases "system_try env (length (trace w)) text opts (log_event (Synthesize ''system'') w)")
  have w2: "trace w2 = trace w @ [Synthesize ''system'']"
    using system_try_trace [of env "length (trace w)" "text" opts
            "log_event (Synthesize ''system'') w"] t
    by (simp add: log_event_def)
  show ?thesis
  proof (cases r)
    case (Inl e)
    with SystemTTSEngine t w2 show ?thesis
      by (simp add: generate_audio_def Let_def system_except_trace)
  next
    case (Inr p)
    with SystemTTSEngine t w2 show ?thesis
      by (simp add: generate_audio_def Let_def)
  qed
qed

text \<open>A request that passes the checks of lines 209 to 229 goes on to \<open>process\<close>.\<close>

lemma receive_utterance_valid:
  assumes "parse_timestamp env now kvs = Inr ts"
    and "is_blank (dict_get kvs ''utterance'' (PStr [])) = Inr False"
  shows "receive_utterance env now st w (PDict kvs)
           = process env (st\<lparr>request_count := request_count st + 1\<rparr>) w (PDict kvs)
               (dict_get kvs ''agent'' (PStr ''unknown''))
               (dict_get kvs ''utterance'' (PStr []))
               (dict_get kvs ''engine'' (PStr ''gtts''))
               (options_of kvs ts)"
  using assms by (simp add: receive_utterance_def options_of_def Let_def)

lemma is_blank_str: "is_blank (PStr u) = Inr (strip u = [])"
  by (auto simp: is_blank_def strip_def)

lemma check_cache_miss:
  assumes "\<forall>f. cache st k = Some f \<longrightarrow> \<not> path_exists w f"
  shows "check_cache k st w
           = (None, st\<lparr>cache := (cache st)(k := None)\<rparr>, log_event (CacheLookup k) w)"
proof (cases "cache st k")
  case None
  then have "(cache st)(k := None) = cache st" by (simp add: fun_upd_idem)
  with None show ?thesis by (simp add: check_cache_def Let_def)
next
  case (Some f)
  with assms show ?thesis by (simp add: check_cache_def Let_def)
qed

lemma check_cache_hit:
  assumes "cache st k = Some f" and "path_exists w f"
  shows "check_cache k st w = (Some f, st, log_event (CacheLookup k) w)"
  using assms by (simp add: check_cache_def Let_def)
lemma path_exists_log_event [simp]: "path_exists (log_event ev w) f = path_exists w f"
  by (simp add: path_exists_def log_event_def)

lemma process_miss:
  assumes "generate_cache_key env u opts = Inr k"
    and "\<forall>f. cache st k = Some f \<longrightarrow> \<not> path_exists w f"
  shows "process env st w payload agent u en opts
           = (case select_and_generate env en u opts k
                     (st\<lparr>cache := (cache st)(k := None)\<rparr>) (after_lookup k w) of
                (Inl e, st2, w2) \<Rightarrow> (error_response e payload, st2, w2)
              | (Inr (p, eng), st2, w2) \<Rightarrow> (Success p agent (name eng) False, st2, w2))"
proof -
  have "check_cache k st (log_event (KeyComputed k) w)
          = (None, st\<lparr>cache := (cache st)(k := None)\<rparr>, after_lookup k w)"
    using assms(2) by (simp add: check_cache_miss after_lookup_def)
  then show ?thesis
    using assms(1)
    by (simp add: process_def lookup_or_synthesize_def success_response_def
          split: prod.splits sum.splits)
qed

text \<open>
  Claim C3. A request that passes validation, misses the cache and names \<^verbatim>\<open>gtts\<close> or
  \<^verbatim>\<open>openai\<close>: if that engine raises, the system engine is called, once, and nothing
  after it. The events of the request are the key, the lookup and these two calls. If
  the system engine returns a file the reply is a success with \<^verbatim>\<open>engine_used\<close>
  \<^verbatim>\<open>system\<close> and the file is cached; if it raises too, the reply is the 500 of the outer
  handler with that exception and the key has no entry.
\<close>

theorem fallback_exactly_once:
  assumes "parse_timestamp env now kvs = Inr ts"
    and "dict_get kvs ''utterance'' (PStr []) = PStr u" and "strip u \<noteq> []"
    and "dict_get kvs ''engine'' (PStr ''gtts'') = PStr n"
    and "tts_engines n = Some eng" and "eng \<noteq> SystemTTSEngine"
    and "generate_cache_key env (PStr u) (options_of kvs ts) = Inr k"
    and "\<forall>f. cache st k = Some f \<longrightarrow> \<not> path_exists w f"
    and "generate_audio env eng (PStr u) (options_of kvs ts) (after_lookup k w) = (Inl e, w1)"
    and "generate_audio env SystemTTSEngine (PStr u) (options_of kvs ts) w1 = (r2, w2)"
    and "receive_utterance env now st w (PDict kvs) = (resp, st', w')"
  shows "w' = w2
         \<and> trace w' = trace w @ [KeyComputed k, CacheLookup k,
                                  Synthesize (name eng), Synthesize ''system'']
         \<and> (case r2 of
               Inr p \<Rightarrow>
                 resp = Success p (dict_get kvs ''agent'' (PStr ''unknown'')) ''system'' False
                 \<and> cache st' k = Some p
             | Inl e2 \<Rightarrow>
                 resp = ServerError e2 (dict_get kvs ''agent'' (PStr ''unknown''))
                 \<and> http_status resp = 500 \<and> cache st' k = None)"
proof -
  have blank: "is_blank (dict_get kvs ''utterance'' (PStr [])) = Inr False"
    using assms(2,3) by (simp add: is_blank_str)
  have not_system: "PStr n \<noteq> PStr ''system''"
    using assms(5,6) by (auto simp: tts_engines_def)
  have sel: "select_and_generate env (PStr n) (PStr u) (options_of kvs ts) k
               (st\<lparr>request_count := request_count st + 1, cache := (cache st)(k := None)\<rparr>)
               (after_lookup k w)
             = (case r2 of
                  Inr p \<Rightarrow>
                    (Inr (p, SystemTTSEngine),
                     st\<lparr>request_count := request_count st + 1, cache := (cache st)(k \<mapsto> p)\<rparr>,
                     w2)
                | Inl e2 \<Rightarrow>
                    (Inl e2,
                     st\<lparr>request_count := request_count st + 1,
                        cache := (cache st)(k := None)\<rparr>, w2))"
    using assms(5,9,10) not_system
    by (simp add: select_and_generate_def lookup_engine_def Let_def split: sum.splits)
  have run: "receive_utterance env now st w (PDict kvs)
               = (case r2 of
                    Inr p \<Rightarrow>
                      (Success p (dict_get kvs ''agent'' (PStr ''unknown'')) ''system'' False,
                       st\<lparr>request_count := request_count st + 1,
                          cache := (cache st)(k \<mapsto> p)\<rparr>, w2)
                  | Inl e2 \<Rightarrow>
                      (error_response e2 (PDict kvs),
                       st\<lparr>request_count := request_count st + 1,
                          cache := (cache st)(k := None)\<rparr>, w2))"
    using assms(2,4,7,8) sel
    by (simp add: receive_utterance_valid [OF assms(1) blank] process_miss
          split: sum.splits)
  have t1: "trace w1 = trace (after_lookup k w) @ [Synthesize (name eng)]"
    using generate_audio_trace [of env eng "PStr u" "options_of kvs ts" "after_lookup k w"]
      assms(9) by simp
  have t2: "trace w2 = trace w1 @ [Synthesize ''system'']"
    using generate_audio_trace [of env SystemTTSEngine "PStr u" "options_of kvs ts" w1]
      assms(10) by simp
  have tr: "trace w2 = trace w @ [KeyComputed k, CacheLookup k,
                                  Synthesize (name eng), Synthesize ''system'']"
    using t1 t2 by (simp add: after_lookup_def log_event_def)
  have "kvs \<noteq> []"
    using assms(2,3) by (auto simp: dict_get_def strip_def)
  then have status:
    "\<And>e2. error_response e2 (PDict kvs)
             = ServerError e2 (dict_get kvs ''agent'' (PStr ''unknown''))"
    by (simp add: error_response_def)
  show ?thesis
    using run assms(11) tr status by (cases r2) simp_all
qed
theorem fallback_exactly_once_witness:
  "parse_timestamp demo_env_gtts_offline demo_now (demo_kvs ''hello'' ''gtts'')
     = Inr (PDatetime demo_now)
   \<and> dict_get (demo_kvs ''hello'' ''gtts'') ''utterance'' (PStr []) = PStr ''hello''
   \<and> strip ''hello'' \<noteq> []
   \<and> dict_get (demo_kvs ''hello'' ''gtts'') ''engine'' (PStr ''gtts'') = PStr ''gtts''
   \<and> tts_engines ''gtts'' = Some GTTSEngine \<and> GTTSEngine \<noteq> SystemTTSEngine
   \<and> generate_cache_key demo_env_gtts_offline (PStr ''hello'')
         (options_of (demo_kvs ''hello'' ''gtts'') (PDatetime demo_now))
       = Inr (demo_key ''hello'' ''gtts'')
   \<and> cache st0 (demo_key ''hello'' ''gtts'') = None
   \<and> generate_audio demo_env_gtts_offline GTTSEngine (PStr ''hello'')
         (options_of (demo_kvs ''hello'' ''gtts'') (PDatetime demo_now))
         (after_lookup (demo_key ''hello'' ''gtts'') w0)
       = (Inl (Wrapped ''gTTS generation failed'' (LibraryError ''Connection error'')),
          \<lparr>files = Map.empty,
            trace = [KeyComputed (demo_key ''hello'' ''gtts''),
                     CacheLookup (demo_key ''hello'' ''gtts''), Synthesize ''gtts'']\<rparr>)
   \<and> receive_utterance demo_env_gtts_offline demo_now st0 w0 (demo_payload ''hello'' ''gtts'')
       = (Success demo_wav (PStr ''bot1'') ''system'' False,
          \<lparr>request_count = 1, cache = [demo_key ''hello'' ''gtts'' \<mapsto> demo_wav]\<rparr>,
          \<lparr>files = [demo_wav \<mapsto> Audio],
            trace = [KeyComputed (demo_key ''hello'' ''gtts''),
                     CacheLookup (demo_key ''hello'' ''gtts''), Synthesize ''gtts'',
                     Synthesize ''system'']\<rparr>)"
proof -
  let ?E = demo_env_gtts_offline
  let ?kvs = "demo_kvs ''hello'' ''gtts''"
  let ?k = "demo_key ''hello'' ''gtts''"
  let ?opts = "options_of ?kvs (PDatetime demo_now)"
  let ?w1 = "\<lparr>files = Map.empty,
               trace = [KeyComputed ?k, CacheLookup ?k, Synthesize ''gtts'']\<rparr>"
  let ?w2 = "\<lparr>files = [demo_wav \<mapsto> Audio],
               trace = [KeyComputed ?k, CacheLookup ?k, Synthesize ''gtts'',
                        Synthesize ''system'']\<rparr>"
  have h1: "parse_timestamp ?E demo_now ?kvs = Inr (PDatetime demo_now)"
    by (simp add: parse_timestamp_def demo_kvs_def)
  have h2: "dict_get ?kvs ''utterance'' (PStr []) = PStr ''hello''"
    by (simp add: dict_get_def demo_kvs_def)
  have h3: "strip ''hello'' \<noteq> []"
    by (simp add: strip_def isspace_def)
  have h4: "dict_get ?kvs ''engine'' (PStr ''gtts'') = PStr ''gtts''"
    by (simp add: dict_get_def demo_kvs_def)
  have h5: "tts_engines ''gtts'' = Some GTTSEngine"
    by (simp add: tts_engines_def)
  have h6: "GTTSEngine \<noteq> SystemTTSEngine" by simp
  have h7: "generate_cache_key ?E (PStr ''hello'') ?opts = Inr ?k"
    by (simp add: webhook_defs demo_defs options_of_def)
  have h8: "\<forall>f. cache st0 ?k = Some f \<longrightarrow> \<not> path_exists w0 f"
    by (simp add: st0_def)
  have h9: "generate_audio ?E GTTSEngine (PStr ''hello'') ?opts (after_lookup ?k w0)
              = (Inl (Wrapped ''gTTS generation failed'' (LibraryError ''Connection error'')),
                 ?w1)"
    by (simp add: webhook_defs demo_defs options_of_def after_lookup_def Let_def)
  have h10: "generate_audio ?E SystemTTSEngine (PStr ''hello'') ?opts ?w1 = (Inr demo_wav, ?w2)"
    by (simp add: webhook_defs demo_defs options_of_def Let_def)
  obtain resp st' w' where h11:
    "receive_utterance ?E demo_now st0 w0 (PDict ?kvs) = (resp, st', w')"
    by (cases "receive_utterance ?E demo_now st0 w0 (PDict ?kvs)")
  have run: "receive_utterance ?E demo_now st0 w0 (demo_payload ''hello'' ''gtts'')
       = (Success demo_wav (PStr ''bot1'') ''system'' False,
          \<lparr>request_count = 1, cache = [?k \<mapsto> demo_wav]\<rparr>, ?w2)"
    by (simp add: webhook_defs demo_defs Let_def)
  from fallback_exactly_once [OF h1 h2 h3 h4 h5 h6 h7 h8 h9 h10 h11]
  have "w' = ?w2" by simp
  moreover have "cache st0 ?k = None" by (simp add: st0_def)
  ultimately show ?thesis using h1 h2 h3 h4 h5 h6 h7 h9 run by simp
qed

subsection \<open>The system engine\<close>

lemma wav_seconds_silent: "wav_seconds silent_wav = 1"
  by (simp add: silent_wav_def)

text \<open>
  Claim C10, as amended. \<^verbatim>\<open>SystemTTSEngine.generate_audio\<close> is not total: its handler
  formats the file name again and writes with the \<^verbatim>\<open>wave\<close> module, and both can raise.
  What holds: if the options have an agent and a \<^verbatim>\<open>datetime\<close> timestamp, the call
  returns the \<^verbatim>\<open>.wav\<close> path exactly when the speed converts and espeak runs and exits
  with code 0. In every other case (the conversion raises, \<^verbatim>\<open>subprocess.run\<close> raises,
  the exit code is not 0) it writes the silent file: one channel, two bytes a sample,
  22050 frames a second, 44100 zero bytes, which is one second of sound, not two; it
  returns the \<^verbatim>\<open>..._silent.wav\<close> path if that write succeeds and raises the write's
  exception if not. The call also raises when the agent or the timestamp is missing and
  when the timestamp is not a \<^verbatim>\<open>datetime\<close>. These are the ways in which the
  dispatcher's re-raise for the system engine is reached.
\<close>

theorem system_engine_by_exit_code:
  "(opts ''agent'' = Some a \<and> opts ''timestamp'' = Some (PDatetime d) \<longrightarrow>
      (let n = length (trace w);
           w1 = log_event (Synthesize ''system'') w;
           stem = py_str env a @ ''_'' @ replace_char (CHR '':'') ''-'' d;
           wav = path_join env AUDIO_DIR (stem @ ''.wav'');
           silent = path_join env AUDIO_DIR (stem @ ''_silent.wav'');
           fallback =
             (case external env n (WaveWrite silent) of
                None \<Rightarrow> (Inr silent, write_file silent (Wav 1 2 22050 (replicate 44100 0)) w1)
              | Some e' \<Rightarrow> (Inl e', w1))
       in generate_audio env SystemTTSEngine utterance opts w
            = (case espeak_speed env (case opts ''speed'' of
                                        None \<Rightarrow> PFloat (FFinite False 1 0)
                                      | Some v \<Rightarrow> v) of
                 Inl e \<Rightarrow> fallback
               | Inr speed \<Rightarrow>
                   (case espeak_run env n [''espeak'', ''-s'', speed, ''-w'', wav] utterance of
                      Inl e \<Rightarrow> fallback
                    | Inr (returncode, stderr) \<Rightarrow>
                        if returncode = 0 then (Inr wav, write_file wav Audio w1)
                        else fallback))))
   \<and> wav_seconds (Wav 1 2 22050 (replicate 44100 0)) = 1
   \<and> (opts ''agent'' = None \<longrightarrow>
        generate_audio env SystemTTSEngine utterance opts w
          = (Inl (KeyError ''agent''), log_event (Synthesize ''system'') w))
   \<and> (opts ''agent'' = Some a \<and> opts ''timestamp'' = None \<longrightarrow>
        generate_audio env SystemTTSEngine utterance opts w
          = (Inl (KeyError ''timestamp''), log_event (Synthesize ''system'') w))
   \<and> (opts ''agent'' = Some a \<and> opts ''timestamp'' = Some v
        \<and> (\<forall>d. v \<noteq> PDatetime d) \<longrightarrow>
        generate_audio env SystemTTSEngine utterance opts w
          = (Inl (AttributeError ''isoformat''), log_event (Synthesize ''system'') w))"
proof -
  have wellformed:
    "opts ''agent'' = Some a \<and> opts ''timestamp'' = Some (PDatetime d) \<longrightarrow>
      (let n = length (trace w);
           w1 = log_event (Synthesize ''system'') w;
           stem = py_str env a @ ''_'' @ replace_char (CHR '':'') ''-'' d;
           wav = path_join env AUDIO_DIR (stem @ ''.wav'');
           silent = path_join env AUDIO_DIR (stem @ ''_silent.wav'');
           fallback =
             (case external env n (WaveWrite silent) of
                None \<Rightarrow> (Inr silent, write_file silent (Wav 1 2 22050 (replicate 44100 0)) w1)
              | Some e' \<Rightarrow> (Inl e', w1))
       in generate_audio env SystemTTSEngine utterance opts w
            = (case espeak_speed env (case opts ''speed'' of
                                        None \<Rightarrow> PFloat (FFinite False 1 0)
                                      | Some v \<Rightarrow> v) of
                 Inl e \<Rightarrow> fallback
               | Inr speed \<Rightarrow>
                   (case espeak_run env n [''espeak'', ''-s'', speed, ''-w'', wav] utterance of
                      Inl e \<Rightarrow> fallback
                    | Inr (returncode, stderr) \<Rightarrow>
                        if returncode = 0 then (Inr wav, write_file wav Audio w1)
                        else fallback)))"
    by (auto simp: generate_audio_def system_try_def system_except_def audio_path_def
          audio_filename_def silent_wav_def Let_def
          split: sum.splits option.splits prod.splits if_splits)
  have seconds: "wav_seconds (Wav 1 2 22050 (replicate 44100 0)) = 1"
    by simp
  have no_agent:
    "opts ''agent'' = None \<longrightarrow>
       generate_audio env SystemTTSEngine utterance opts w
         = (Inl (KeyError ''agent''), log_event (Synthesize ''system'') w)"
    by (simp add: generate_audio_def system_try_def system_except_def audio_path_def
          audio_filename_def Let_def)
  have no_timestamp:
    "opts ''agent'' = Some a \<and> opts ''timestamp'' = None \<longrightarrow>
       generate_audio env SystemTTSEngine utterance opts w
         = (Inl (KeyError ''timestamp''), log_event (Synthesize ''system'') w)"
    by (simp add: generate_audio_def system_try_def system_except_def audio_path_def
          audio_filename_def Let_def)
  have bad_timestamp:
    "opts ''agent'' = Some a \<and> opts ''timestamp'' = Some v \<and> (\<forall>d. v \<noteq> PDatetime d) \<longrightarrow>
       generate_audio env SystemTTSEngine utterance opts w
         = (Inl (AttributeError ''isoformat''), log_event (Synthesize ''system'') w)"
    by (cases v)
       (simp_all add: generate_audio_def system_try_def system_except_def audio_path_def
          audio_filename_def Let_def)
  from wellformed seconds no_agent no_timestamp bad_timestamp
  show ?thesis by (intro conjI)
qed

theorem system_engine_by_exit_code_witness:
  "options_of (demo_kvs ''hello'' ''system'') (PDatetime demo_now) ''agent'' = Some (PStr ''bot1'')
   \<and> options_of (demo_kvs ''hello'' ''system'') (PDatetime demo_now) ''timestamp''
       = Some (PDatetime demo_now)
   \<and> espeak_run demo_env 0 [''espeak'', ''-s'', ''150'', ''-w'', demo_wav] (PStr ''hello'')
       = Inr (0, [])
   \<and> generate_audio demo_env SystemTTSEngine (PStr ''hello'')
         (options_of (demo_kvs ''hello'' ''system'') (PDatetime demo_now)) w0
       = (Inr demo_wav, \<lparr>files = [demo_wav \<mapsto> Audio], trace = [Synthesize ''system'']\<rparr>)
   \<and> espeak_run demo_env_espeak_exit1 0 [''espeak'', ''-s'', ''150'', ''-w'', demo_wav]
         (PStr ''hello'')
       = Inr (1, ''espeak: cannot open output'')
   \<and> external demo_env_espeak_exit1 0 (WaveWrite demo_silent_wav) = None
   \<and> generate_audio demo_env_espeak_exit1 SystemTTSEngine (PStr ''hello'')
         (options_of (demo_kvs ''hello'' ''system'') (PDatetime demo_now)) w0
       = (Inr demo_silent_wav,
          \<lparr>files = [demo_silent_wav \<mapsto> Wav 1 2 22050 (replicate 44100 0)],
            trace = [Synthesize ''system'']\<rparr>)
   \<and> espeak_run demo_env_no_disk 0 [''espeak'', ''-s'', ''150'', ''-w'', demo_wav]
         (PStr ''hello'')
       = Inl (LibraryError ''No such file: espeak'')
   \<and> external demo_env_no_disk 0 (WaveWrite demo_silent_wav)
       = Some (LibraryError ''No space left on device'')
   \<and> generate_audio demo_env_no_disk SystemTTSEngine (PStr ''hello'')
         (options_of (demo_kvs ''hello'' ''system'') (PDatetime demo_now)) w0
       = (Inl (LibraryError ''No space left on device''),
          \<lparr>files = Map.empty, trace = [Synthesize ''system'']\<rparr>)
   \<and> wav_seconds (Wav 1 2 22050 (replicate 44100 0)) = 1
   \<and> [''agent'' \<mapsto> PStr ''bot1'', ''timestamp'' \<mapsto> PStr ''2024-05-01''] ''timestamp''
       = Some (PStr ''2024-05-01'')
   \<and> fst (generate_audio demo_env SystemTTSEngine (PStr ''hello'')
             [''agent'' \<mapsto> PStr ''bot1'', ''timestamp'' \<mapsto> PStr ''2024-05-01''] w0)
       = Inl (AttributeError ''isoformat'')"
proof -
  let ?opts = "options_of (demo_kvs ''hello'' ''system'') (PDatetime demo_now)"
  let ?bad = "[''agent'' \<mapsto> PStr ''bot1'', ''timestamp'' \<mapsto> PStr ''2024-05-01'']"
  note env_defs = demo_env_def demo_env_espeak_exit1_def demo_env_no_espeak_def
    demo_env_no_disk_def
  note path_defs = py_str_def replace_char_def AUDIO_DIR_def demo_now_def demo_wav_def
    demo_silent_wav_def
  have a: "?opts ''agent'' = Some (PStr ''bot1'')"
    and t: "?opts ''timestamp'' = Some (PDatetime demo_now)"
    and s: "?opts ''speed'' = Some (PFloat (FFinite False 1 0))"
    by (simp_all add: options_of_def build_options_def dict_get_def demo_kvs_def)
  have ba: "?bad ''agent'' = Some (PStr ''bot1'')"
    and bt: "?bad ''timestamp'' = Some (PStr ''2024-05-01'')"
    by simp_all
  have e0: "espeak_run demo_env 0 [''espeak'', ''-s'', ''150'', ''-w'', demo_wav] (PStr ''hello'')
              = Inr (0, [])"
    and e1: "espeak_run demo_env_espeak_exit1 0 [''espeak'', ''-s'', ''150'', ''-w'', demo_wav]
               (PStr ''hello'') = Inr (1, ''espeak: cannot open output'')"
    and x1: "external demo_env_espeak_exit1 0 (WaveWrite demo_silent_wav) = None"
    and e2: "espeak_run demo_env_no_disk 0 [''espeak'', ''-s'', ''150'', ''-w'', demo_wav]
               (PStr ''hello'') = Inl (LibraryError ''No such file: espeak'')"
    and x2: "external demo_env_no_disk 0 (WaveWrite demo_silent_wav)
               = Some (LibraryError ''No space left on device'')"
    by (simp_all add: env_defs)
  note ok = system_engine_by_exit_code
              [where opts = ?opts and a = "PStr ''bot1''" and d = demo_now and w = w0
                 and env = demo_env and utterance = "PStr ''hello''"]
  note exit1 = system_engine_by_exit_code
              [where opts = ?opts and a = "PStr ''bot1''" and d = demo_now and w = w0
                 and env = demo_env_espeak_exit1 and utterance = "PStr ''hello''"]
  note nodisk = system_engine_by_exit_code
              [where opts = ?opts and a = "PStr ''bot1''" and d = demo_now and w = w0
                 and env = demo_env_no_disk and utterance = "PStr ''hello''"]
  note bad = system_engine_by_exit_code
               [where opts = ?bad and a = "PStr ''bot1''" and v = "PStr ''2024-05-01''"
                  and w = w0 and env = demo_env and utterance = "PStr ''hello''"]
  have r0: "generate_audio demo_env SystemTTSEngine (PStr ''hello'') ?opts w0
       = (Inr demo_wav, \<lparr>files = [demo_wav \<mapsto> Audio], trace = [Synthesize ''system'']\<rparr>)"
    using ok a t s
    by (simp add: Let_def env_defs path_defs w0_def log_event_def write_file_def)
  have r1: "generate_audio demo_env_espeak_exit1 SystemTTSEngine (PStr ''hello'') ?opts w0
       = (Inr demo_silent_wav,
          \<lparr>files = [demo_silent_wav \<mapsto> Wav 1 2 22050 (replicate 44100 0)],
            trace = [Synthesize ''system'']\<rparr>)"
    using exit1 a t s
    by (simp add: Let_def env_defs path_defs w0_def log_event_def write_file_def)
  have r2: "generate_audio demo_env_no_disk SystemTTSEngine (PStr ''hello'') ?opts w0
       = (Inl (LibraryError ''No space left on device''),
          \<lparr>files = Map.empty, trace = [Synthesize ''system'']\<rparr>)"
    using nodisk a t s
    by (simp add: Let_def env_defs path_defs w0_def log_event_def write_file_def)
  have sec: "wav_seconds (Wav 1 2 22050 (replicate 44100 0)) = 1"
    using ok by simp
  have raise: "fst (generate_audio demo_env SystemTTSEngine (PStr ''hello'') ?bad w0)
                 = Inl (AttributeError ''isoformat'')"
    using bad ba bt by simp
  from a t e0 r0 e1 x1 r1 e2 x2 r2 sec bt raise show ?thesis by (intro conjI)
qed

text \<open>
  Claim C10 fails as stated. With a timestamp that is a JSON number the system engine
  raises from both its \<^verbatim>\<open>try\<close> and its handler, and the webhook answers a request for
  the engine \<^verbatim>\<open>system\<close> with 500 through the branch \<^verbatim>\<open>raise e\<close>, after a single call of
  the engine; when espeak and the disk both fail the engine raises as well; and the
  silent file lasts one second, not two.
\<close>

theorem system_engine_total_counterexample:
  "fst (generate_audio demo_env SystemTTSEngine (PStr ''hi'')
          (build_options (PStr ''bot1'') (PInt 5) (PStr ''system'') (PStr ''neutral'')
             (PStr ''en'') (PFloat (FFinite False 1 0))) w0)
     = Inl (AttributeError ''isoformat'')
   \<and> fst (receive_utterance demo_env demo_now st0 w0
            (PDict [(''agent'', PStr ''bot1''), (''utterance'', PStr ''hi''),
                    (''engine'', PStr ''system''), (''timestamp'', PInt 5)]))
       = ServerError (AttributeError ''isoformat'') (PStr ''bot1'')
   \<and> filter (\<lambda>ev. case ev of Synthesize n \<Rightarrow> True | _ \<Rightarrow> False)
        (trace (snd (snd (receive_utterance demo_env demo_now st0 w0
            (PDict [(''agent'', PStr ''bot1''), (''utterance'', PStr ''hi''),
                    (''engine'', PStr ''system''), (''timestamp'', PInt 5)])))))
       = [Synthesize ''system'']
   \<and> fst (generate_audio demo_env_no_disk SystemTTSEngine (PStr ''hello'')
            (options_of (demo_kvs ''hello'' ''system'') (PDatetime demo_now)) w0)
       = Inl (LibraryError ''No space left on device'')
   \<and> wav_seconds silent_wav \<noteq> 2"
  by (simp add: webhook_defs demo_defs options_of_def Let_def wav_seconds_silent)

section \<open>Properties of the webhook\<close>

text \<open>\<^verbatim>\<open>s.strip()\<close> is empty exactly when \<open>s\<close> is empty or all whitespace.\<close>

lemma strip_empty_iff: "strip s = [] \<longleftrightarrow> (\<forall>c \<in> set s. isspace c)"
proof
  assume "strip s = []"
  then have "\<forall>c \<in> set (rev (dropWhile isspace s)). isspace c"
    by (simp add: strip_def)
  then have all: "\<forall>c \<in> set (dropWhile isspace s). isspace c" by simp
  have "dropWhile isspace s = []"
  proof (rule ccontr)
    assume ne: "dropWhile isspace s \<noteq> []"
    then have "\<not> isspace (hd (dropWhile isspace s))" by (rule hd_dropWhile)
    moreover from ne have "hd (dropWhile isspace s) \<in> set (dropWhile isspace s)" by simp
    ultimately show False using all by blast
  qed
  then show "\<forall>c \<in> set s. isspace c" by simp
next
  assume "\<forall>c \<in> set s. isspace c"
  then have "dropWhile isspace s = []" by simp
  then show "strip s = []" by (simp only: strip_def rev.simps dropWhile.simps)
qed

text \<open>
  Claim C8, as amended. A request whose utterance is empty or all whitespace leaves the
  cache and the world as they were: no key is computed, the cache is neither read nor
  changed, no engine is called, no file is written; only the request counter moves. Its
  reply is the 400 whenever the timestamp is absent, is not a string, or parses; a
  timestamp string that does not parse is answered first, with the 500 of the outer
  handler.
\<close>

theorem blank_utterance_rejected:
  assumes "dict_get kvs ''utterance'' (PStr []) = PStr s"
    and "\<forall>c \<in> set s. isspace c"
  shows "snd (receive_utterance env now st w (PDict kvs))
           = (st\<lparr>request_count := request_count st + 1\<rparr>, w)
         \<and> fst (receive_utterance env now st w (PDict kvs))
             = (case parse_timestamp env now kvs of
                  Inr ts \<Rightarrow> BadRequest
                | Inl e \<Rightarrow> error_response e (PDict kvs))
         \<and> ((\<forall>t. map_of kvs ''timestamp'' \<noteq> Some (PStr t)) \<longrightarrow>
              fst (receive_utterance env now st w (PDict kvs)) = BadRequest)
         \<and> http_status BadRequest = 400"
proof -
  from assms(2) have "strip s = []" by (simp add: strip_empty_iff)
  with assms(1) have blank: "is_blank (dict_get kvs ''utterance'' (PStr [])) = Inr True"
    by (simp add: is_blank_str)
  have not_string:
    "(\<forall>t. map_of kvs ''timestamp'' \<noteq> Some (PStr t)) \<longrightarrow>
       (\<exists>ts. parse_timestamp env now kvs = Inr ts)"
    by (auto simp: parse_timestamp_def split: option.splits pyval.splits)
  show ?thesis
    using blank not_string
    by (auto simp: receive_utterance_def Let_def split: sum.splits)
qed

theorem blank_utterance_rejected_witness:
  "dict_get (demo_kvs ''  '' ''gtts'') ''utterance'' (PStr []) = PStr ''  ''
   \<and> isspace (CHR '' '') \<and> set ''  '' = {CHR '' ''}
   \<and> map_of (demo_kvs ''  '' ''gtts'') ''timestamp'' = None
   \<and> receive_utterance demo_env demo_now st0 w0 (demo_payload ''  '' ''gtts'')
       = (BadRequest, \<lparr>request_count = 1, cache = Map.empty\<rparr>, w0)"
proof -
  have h1: "dict_get (demo_kvs ''  '' ''gtts'') ''utterance'' (PStr []) = PStr ''  ''"
    by (simp add: dict_get_def demo_kvs_def)
  have h2: "\<forall>c \<in> set ''  ''. isspace c"
    by (simp add: isspace_def)
  have h3: "\<forall>t. map_of (demo_kvs ''  '' ''gtts'') ''timestamp'' \<noteq> Some (PStr t)"
    by (simp add: demo_kvs_def)
  from blank_utterance_rejected [OF h1 h2, of demo_env demo_now st0 w0] h3
  have "receive_utterance demo_env demo_now st0 w0 (PDict (demo_kvs ''  '' ''gtts''))
          = (BadRequest, st0\<lparr>request_count := request_count st0 + 1\<rparr>, w0)"
    by (simp add: prod_eq_iff parse_timestamp_def demo_kvs_def)
  moreover have "isspace (CHR '' '')" by (simp add: isspace_def)
  moreover have "map_of (demo_kvs ''  '' ''gtts'') ''timestamp'' = None"
    by (simp add: demo_kvs_def)
  ultimately show ?thesis using h1 by (simp add: demo_payload_def st0_def)
qed

text \<open>
  Claim C8 fails as stated: an empty utterance sent with a timestamp that does not parse
  is answered with 500, not 400.
\<close>

theorem blank_utterance_counterexample:
  "fst (receive_utterance demo_env demo_now st0 w0
          (PDict [(''agent'', PStr ''bot1''), (''utterance'', PStr []),
                  (''timestamp'', PStr ''not-a-date'')]))
     = ServerError (ValueError ''Invalid isoformat string'') (PStr ''bot1'')
   \<and> http_status (fst (receive_utterance demo_env demo_now st0 w0
          (PDict [(''agent'', PStr ''bot1''), (''utterance'', PStr []),
                  (''timestamp'', PStr ''not-a-date'')]))) \<noteq> 400"
  by (simp add: webhook_defs demo_defs Let_def)

subsection \<open>Length of the text\<close>

lemma strip_no_space: "\<forall>c \<in> set s. \<not> isspace c \<Longrightarrow> strip s = s"
proof -
  assume a: "\<forall>c \<in> set s. \<not> isspace c"
  have d: "\<And>xs. \<forall>c \<in> set xs. \<not> isspace c \<Longrightarrow> dropWhile isspace xs = xs"
    by (metis dropWhile_eq_self_iff list.set_sel(1))
  have "dropWhile isspace s = s" using a by (rule d)
  moreover have "dropWhile isspace (rev s) = rev s" using a by (intro d) simp
  ultimately show ?thesis by (simp add: strip_def)
qed

lemma strip_replicate_a: "strip (replicate n (CHR ''a'')) = replicate n (CHR ''a'')"
  by (rule strip_no_space) (simp add: isspace_def)

lemma str_int_5000: "str_int 5000 = ''5000''"
  by (simp add: str_int_def str_nat.simps)

text \<open>
  Claim C7, as amended. The length bound lives in \<^verbatim>\<open>sanitize_text\<close>, which the webhook
  never calls (the counterexample below). \<^verbatim>\<open>sanitize_text\<close> measures the text after
  \<^verbatim>\<open>strip()\<close>: a text that is not blank and is then longer than \<^verbatim>\<open>max_length\<close> raises
  the \<^verbatim>\<open>ValueError\<close> "Text too long", and a text it returns is the stripped text, not
  empty and at most \<^verbatim>\<open>max_length\<close> long.
\<close>

theorem sanitize_text_length_bound:
  "(strip t \<noteq> [] \<and> max_length < int (length (strip t)) \<longrightarrow>
      sanitize_text t max_length
        = Inl (ValueError (''Text too long. Maximum '' @ str_int max_length
                             @ '' characters allowed'')))
   \<and> (sanitize_text t max_length = Inr t' \<longrightarrow>
        t' = strip t \<and> t' \<noteq> [] \<and> int (length t') \<le> max_length)"
  by (auto simp: sanitize_text_def Let_def strip_def split: if_splits)

theorem sanitize_text_length_bound_witness:
  "strip (replicate 5001 (CHR ''a'')) \<noteq> []
   \<and> default_max_length < int (length (strip (replicate 5001 (CHR ''a''))))
   \<and> sanitize_text (replicate 5001 (CHR ''a'')) default_max_length
       = Inl (ValueError ''Text too long. Maximum 5000 characters allowed'')
   \<and> sanitize_text '' hello '' default_max_length = Inr ''hello''"
proof -
  have h1: "strip (replicate 5001 (CHR ''a'')) \<noteq> []"
    by (simp add: strip_replicate_a)
  have h2: "default_max_length < int (length (strip (replicate 5001 (CHR ''a''))))"
    by (simp add: strip_replicate_a default_max_length_def)
  have ok: "sanitize_text '' hello '' default_max_length = Inr ''hello''"
    by (simp add: sanitize_text_def strip_def isspace_def default_max_length_def)
  from sanitize_text_length_bound
         [where t = "replicate 5001 (CHR ''a'')" and max_length = default_max_length]
       h1 h2
  have "sanitize_text (replicate 5001 (CHR ''a'')) default_max_length
          = Inl (ValueError ''Text too long. Maximum 5000 characters allowed'')"
    by (simp add: default_max_length_def str_int_5000)
  with h1 h2 ok show ?thesis by (intro conjI)
qed

lemma demo_system_request_served:
  assumes "strip u \<noteq> []"
  shows "receive_utterance demo_env demo_now st0 w0 (demo_payload u ''system'')
           = (Success demo_wav (PStr ''bot1'') ''system'' False,
              \<lparr>request_count = 1, cache = [demo_key u ''system'' \<mapsto> demo_wav]\<rparr>,
              \<lparr>files = [demo_wav \<mapsto> Audio],
                trace = [KeyComputed (demo_key u ''system''),
                         CacheLookup (demo_key u ''system''), Synthesize ''system'']\<rparr>)"
proof -
  from assms have "u \<noteq> []" by (auto simp: strip_def)
  with assms have "is_blank (PStr u) = Inr False" by (simp add: is_blank_def)
  then show ?thesis
    by (simp add: receive_utterance_def process_def success_response_def
          lookup_or_synthesize_def select_and_generate_def lookup_engine_def
          check_cache_def build_options_def parse_timestamp_def dict_get_def
          generate_cache_key_def cache_data_def json_dumps_sorted_def options_get_def
          generate_audio_def system_try_def audio_path_def audio_filename_def py_str_def
          AUDIO_DIR_def tts_engines_def log_event_def write_file_def path_exists_def
          replace_char_def demo_defs Let_def)
qed

text \<open>
  Claim C7 fails on the webhook: a text of 5001 characters, which \<^verbatim>\<open>sanitize_text\<close>
  rejects, is synthesised and answered with 200.
\<close>

theorem long_text_counterexample:
  "default_max_length < int (length (replicate 5001 (CHR ''a'')))
   \<and> http_status (fst (receive_utterance demo_env demo_now st0 w0
                          (demo_payload (replicate 5001 (CHR ''a'')) ''system''))) = 200
   \<and> Synthesize ''system''
        \<in> set (trace (snd (snd (receive_utterance demo_env demo_now st0 w0
                                    (demo_payload (replicate 5001 (CHR ''a'')) ''system'')))))"
proof -
  have "strip (replicate 5001 (CHR ''a'')) \<noteq> []"
    by (simp add: strip_replicate_a)
  from demo_system_request_served [OF this] show ?thesis
    by (simp add: default_max_length_def)
qed

subsection \<open>Cache lookup\<close>

text \<open>
  What lines 246 to 273 do with an entry: a hit binds the file and \<^verbatim>\<open>cache_hit\<close>, calls
  no engine and leaves \<^verbatim>\<open>engine\<close> unbound; an entry whose file is gone is deleted and
  the request goes on exactly as if the key had never been cached.
\<close>

lemma lookup_hit:
  assumes "cache st k = Some p" and "path_exists w p"
  shows "lookup_or_synthesize env engine_name utterance opts k st w
           = (Inr \<lparr>audio_filepath = p, cache_hit = True, engine_var = None\<rparr>,
              st, log_event (CacheLookup k) w)"
  using assms by (simp add: lookup_or_synthesize_def check_cache_hit)

lemma lookup_stale_as_miss:
  assumes "cache st k = Some p" and "\<not> path_exists w p"
  shows "lookup_or_synthesize env engine_name utterance opts k st w
           = lookup_or_synthesize env engine_name utterance opts k
               (st\<lparr>cache := (cache st)(k := None)\<rparr>) w
         \<and> fst (snd (check_cache k st w)) = st\<lparr>cache := (cache st)(k := None)\<rparr>"
  using assms by (simp add: lookup_or_synthesize_def check_cache_def Let_def)

text \<open>
  The reply after a hit: \<^verbatim>\<open>engine.name\<close> reads the unbound variable, and the outer
  handler turns the \<^verbatim>\<open>UnboundLocalError\<close> into its 500.
\<close>

lemma cache_hit_reply:
  assumes "parse_timestamp env now kvs = Inr ts"
    and "dict_get kvs ''utterance'' (PStr []) = PStr u" and "strip u \<noteq> []"
    and "generate_cache_key env (PStr u) (options_of kvs ts) = Inr k"
    and "cache st k = Some p" and "path_exists w p"
  shows "receive_utterance env now st w (PDict kvs)
           = (ServerError (UnboundLocalError ''engine'')
                (dict_get kvs ''agent'' (PStr ''unknown'')),
              st\<lparr>request_count := request_count st + 1\<rparr>, after_lookup k w)"
proof -
  have blank: "is_blank (dict_get kvs ''utterance'' (PStr [])) = Inr False"
    using assms(2,3) by (simp add: is_blank_str)
  have "kvs \<noteq> []"
    using assms(2,3) by (auto simp: dict_get_def strip_def)
  then have err: "\<And>e. error_response e (PDict kvs)
                         = ServerError e (dict_get kvs ''agent'' (PStr ''unknown''))"
    by (simp add: error_response_def)
  have "lookup_or_synthesize env (dict_get kvs ''engine'' (PStr ''gtts'')) (PStr u)
          (options_of kvs ts) k (st\<lparr>request_count := request_count st + 1\<rparr>)
          (log_event (KeyComputed k) w)
        = (Inr \<lparr>audio_filepath = p, cache_hit = True, engine_var = None\<rparr>,
           st\<lparr>request_count := request_count st + 1\<rparr>, after_lookup k w)"
    using assms(5,6) by (simp add: lookup_hit after_lookup_def)
  then show ?thesis
    using assms(2,4) err
    by (simp add: receive_utterance_valid [OF assms(1) blank] process_def
          success_response_def)
qed

text \<open>
  Claim C2 at the end-to-end scenario of the specification: the request
  \<^verbatim>\<open>{agent: "bot1", utterance: "hello", engine: "system"}\<close> sent twice. The first reply is
  a success and caches the file, which exists. In the second request the lookup finds
  the entry, binds the file with \<^verbatim>\<open>cache_hit = True\<close> and calls no engine, as the claim
  says; but the reply then reads \<^verbatim>\<open>engine.name\<close> with \<^verbatim>\<open>engine\<close> unbound, and the
  webhook answers 500 instead of returning the cached file.
\<close>

theorem cache_hit_second_request:
  "receive_utterance demo_env demo_now st0 w0 (demo_payload ''hello'' ''system'')
     = (Success demo_wav (PStr ''bot1'') ''system'' False,
        \<lparr>request_count = 1, cache = [demo_key ''hello'' ''system'' \<mapsto> demo_wav]\<rparr>,
        \<lparr>files = [demo_wav \<mapsto> Audio],
          trace = [KeyComputed (demo_key ''hello'' ''system''),
                   CacheLookup (demo_key ''hello'' ''system''), Synthesize ''system'']\<rparr>)
   \<and> lookup_or_synthesize demo_env (PStr ''system'') (PStr ''hello'')
         (options_of (demo_kvs ''hello'' ''system'') (PDatetime demo_now))
         (demo_key ''hello'' ''system'')
         \<lparr>request_count = 2, cache = [demo_key ''hello'' ''system'' \<mapsto> demo_wav]\<rparr>
         \<lparr>files = [demo_wav \<mapsto> Audio],
           trace = [KeyComputed (demo_key ''hello'' ''system''),
                    CacheLookup (demo_key ''hello'' ''system''), Synthesize ''system'',
                    KeyComputed (demo_key ''hello'' ''system'')]\<rparr>
       = (Inr \<lparr>audio_filepath = demo_wav, cache_hit = True, engine_var = None\<rparr>,
          \<lparr>request_count = 2, cache = [demo_key ''hello'' ''system'' \<mapsto> demo_wav]\<rparr>,
          \<lparr>files = [demo_wav \<mapsto> Audio],
            trace = [KeyComputed (demo_key ''hello'' ''system''),
                     CacheLookup (demo_key ''hello'' ''system''), Synthesize ''system'',
                     KeyComputed (demo_key ''hello'' ''system''),
                     CacheLookup (demo_key ''hello'' ''system'')]\<rparr>)
   \<and> receive_utterance demo_env demo_now
         \<lparr>request_count = 1, cache = [demo_key ''hello'' ''system'' \<mapsto> demo_wav]\<rparr>
         \<lparr>files = [demo_wav \<mapsto> Audio],
           trace = [KeyComputed (demo_key ''hello'' ''system''),
                     CacheLookup (demo_key ''hello'' ''system''), Synthesize ''system'']\<rparr>
         (demo_payload ''hello'' ''system'')
       = (ServerError (UnboundLocalError ''engine'') (PStr ''bot1''),
          \<lparr>request_count = 2, cache = [demo_key ''hello'' ''system'' \<mapsto> demo_wav]\<rparr>,
          \<lparr>files = [demo_wav \<mapsto> Audio],
            trace = [KeyComputed (demo_key ''hello'' ''system''),
                     CacheLookup (demo_key ''hello'' ''system''), Synthesize ''system'',
                     KeyComputed (demo_key ''hello'' ''system''),
                     CacheLookup (demo_key ''hello'' ''system'')]\<rparr>)"
proof -
  have ne: "strip ''hello'' \<noteq> []" by (simp add: strip_def isspace_def)
  have first: "receive_utterance demo_env demo_now st0 w0 (demo_payload ''hello'' ''system'')
     = (Success demo_wav (PStr ''bot1'') ''system'' False,
        \<lparr>request_count = 1, cache = [demo_key ''hello'' ''system'' \<mapsto> demo_wav]\<rparr>,
        \<lparr>files = [demo_wav \<mapsto> Audio],
          trace = [KeyComputed (demo_key ''hello'' ''system''),
                   CacheLookup (demo_key ''hello'' ''system''), Synthesize ''system'']\<rparr>)"
    using ne by (rule demo_system_request_served)
  have stage: "lookup_or_synthesize demo_env (PStr ''system'') (PStr ''hello'')
         (options_of (demo_kvs ''hello'' ''system'') (PDatetime demo_now))
         (demo_key ''hello'' ''system'')
         \<lparr>request_count = 2, cache = [demo_key ''hello'' ''system'' \<mapsto> demo_wav]\<rparr>
         \<lparr>files = [demo_wav \<mapsto> Audio],
           trace = [KeyComputed (demo_key ''hello'' ''system''),
                    CacheLookup (demo_key ''hello'' ''system''), Synthesize ''system'',
                    KeyComputed (demo_key ''hello'' ''system'')]\<rparr>
       = (Inr \<lparr>audio_filepath = demo_wav, cache_hit = True, engine_var = None\<rparr>,
          \<lparr>request_count = 2, cache = [demo_key ''hello'' ''system'' \<mapsto> demo_wav]\<rparr>,
          \<lparr>files = [demo_wav \<mapsto> Audio],
            trace = [KeyComputed (demo_key ''hello'' ''system''),
                     CacheLookup (demo_key ''hello'' ''system''), Synthesize ''system'',
                     KeyComputed (demo_key ''hello'' ''system''),
                     CacheLookup (demo_key ''hello'' ''system'')]\<rparr>)"
    by (simp add: lookup_hit path_exists_def log_event_def)
  have second: "receive_utterance demo_env demo_now
         \<lparr>request_count = 1, cache = [demo_key ''hello'' ''system'' \<mapsto> demo_wav]\<rparr>
         \<lparr>files = [demo_wav \<mapsto> Audio],
           trace = [KeyComputed (demo_key ''hello'' ''system''),
                     CacheLookup (demo_key ''hello'' ''system''), Synthesize ''system'']\<rparr>
         (demo_payload ''hello'' ''system'')
       = (ServerError (UnboundLocalError ''engine'') (PStr ''bot1''),
          \<lparr>request_count = 2, cache = [demo_key ''hello'' ''system'' \<mapsto> demo_wav]\<rparr>,
          \<lparr>files = [demo_wav \<mapsto> Audio],
            trace = [KeyComputed (demo_key ''hello'' ''system''),
                     CacheLookup (demo_key ''hello'' ''system''), Synthesize ''system'',
                     KeyComputed (demo_key ''hello'' ''system''),
                     CacheLookup (demo_key ''hello'' ''system'')]\<rparr>)"
    by (simp add: webhook_defs demo_defs Let_def)
  from first stage second show ?thesis by (intro conjI)
qed

subsection \<open>Unknown engine names\<close>

text \<open>
  Claim C9, as amended. A request that passes validation, misses the cache and names an
  engine that is not in the registry is given to the system engine, and to no other:
  the unknown name is not an error of its own. If the system engine returns a file, the
  reply is a success with \<^verbatim>\<open>engine_used\<close> \<^verbatim>\<open>system\<close> and \<^verbatim>\<open>cache_hit\<close> false, and the
  file is cached. If it raises, it is called once more (the name is not \<^verbatim>\<open>system\<close>),
  and the reply is a success if that call returns and the 500 of the outer handler if it
  raises again. Nothing is said here about a request that hits the cache.
\<close>

theorem unknown_engine_uses_system:
  assumes "parse_timestamp env now kvs = Inr ts"
    and "dict_get kvs ''utterance'' (PStr []) = PStr u" and "strip u \<noteq> []"
    and "dict_get kvs ''engine'' (PStr ''gtts'') = PStr n" and "tts_engines n = None"
    and "generate_cache_key env (PStr u) (options_of kvs ts) = Inr k"
    and "\<forall>f. cache st k = Some f \<longrightarrow> \<not> path_exists w f"
    and "generate_audio env SystemTTSEngine (PStr u) (options_of kvs ts) (after_lookup k w)
           = (r1, w1)"
    and "generate_audio env SystemTTSEngine (PStr u) (options_of kvs ts) w1 = (r2, w2)"
  shows "receive_utterance env now st w (PDict kvs)
           = (case r1 of
                Inr p \<Rightarrow>
                  (Success p (dict_get kvs ''agent'' (PStr ''unknown'')) ''system'' False,
                   st\<lparr>request_count := request_count st + 1, cache := (cache st)(k \<mapsto> p)\<rparr>,
                   w1)
              | Inl e1 \<Rightarrow>
                  (case r2 of
                     Inr p \<Rightarrow>
                       (Success p (dict_get kvs ''agent'' (PStr ''unknown'')) ''system'' False,
                        st\<lparr>request_count := request_count st + 1,
                           cache := (cache st)(k \<mapsto> p)\<rparr>,
                        w2)
                   | Inl e2 \<Rightarrow>
                       (ServerError e2 (dict_get kvs ''agent'' (PStr ''unknown'')),
                        st\<lparr>request_count := request_count st + 1,
                           cache := (cache st)(k := None)\<rparr>,
                        w2)))
         \<and> trace w1 = trace w @ [KeyComputed k, CacheLookup k, Synthesize ''system'']
         \<and> trace w2 = trace w @ [KeyComputed k, CacheLookup k, Synthesize ''system'',
                                   Synthesize ''system'']"
proof -
  have blank: "is_blank (dict_get kvs ''utterance'' (PStr [])) = Inr False"
    using assms(2,3) by (simp add: is_blank_str)
  have "kvs \<noteq> []"
    using assms(2,3) by (auto simp: dict_get_def strip_def)
  then have err: "\<And>e. error_response e (PDict kvs)
                         = ServerError e (dict_get kvs ''agent'' (PStr ''unknown''))"
    by (simp add: error_response_def)
  have not_system: "PStr n \<noteq> PStr ''system''"
    using assms(5) by (auto simp: tts_engines_def)
  have sel: "select_and_generate env (PStr n) (PStr u) (options_of kvs ts) k
               (st\<lparr>request_count := request_count st + 1, cache := (cache st)(k := None)\<rparr>)
               (after_lookup k w)
             = (case r1 of
                  Inr p \<Rightarrow>
                    (Inr (p, SystemTTSEngine),
                     st\<lparr>request_count := request_count st + 1, cache := (cache st)(k \<mapsto> p)\<rparr>,
                     w1)
                | Inl e1 \<Rightarrow>
                    (case r2 of
                       Inr p \<Rightarrow>
                         (Inr (p, SystemTTSEngine),
                          st\<lparr>request_count := request_count st + 1,
                             cache := (cache st)(k \<mapsto> p)\<rparr>, w2)
                     | Inl e2 \<Rightarrow>
                         (Inl e2,
                          st\<lparr>request_count := request_count st + 1,
                             cache := (cache st)(k := None)\<rparr>, w2)))"
    using assms(5,8,9) not_system
    by (simp add: select_and_generate_def lookup_engine_def Let_def split: sum.splits)
  have run: "receive_utterance env now st w (PDict kvs)
           = (case r1 of
                Inr p \<Rightarrow>
                  (Success p (dict_get kvs ''agent'' (PStr ''unknown'')) ''system'' False,
                   st\<lparr>request_count := request_count st + 1, cache := (cache st)(k \<mapsto> p)\<rparr>,
                   w1)
              | Inl e1 \<Rightarrow>
                  (case r2 of
                     Inr p \<Rightarrow>
                       (Success p (dict_get kvs ''agent'' (PStr ''unknown'')) ''system'' False,
                        st\<lparr>request_count := request_count st + 1,
                           cache := (cache st)(k \<mapsto> p)\<rparr>,
                        w2)
                   | Inl e2 \<Rightarrow>
                       (ServerError e2 (dict_get kvs ''agent'' (PStr ''unknown'')),
                        st\<lparr>request_count := request_count st + 1,
                           cache := (cache st)(k := None)\<rparr>,
                        w2)))"
    using assms(2,4,6,7) sel err
    by (simp add: receive_utterance_valid [OF assms(1) blank] process_miss
          split: sum.splits)
  have t1: "trace w1 = trace w @ [KeyComputed k, CacheLookup k, Synthesize ''system'']"
    using generate_audio_trace [of env SystemTTSEngine "PStr u" "options_of kvs ts"
            "after_lookup k w"] assms(8)
    by (simp add: after_lookup_def log_event_def)
  have t2: "trace w2 = trace w1 @ [Synthesize ''system'']"
    using generate_audio_trace [of env SystemTTSEngine "PStr u" "options_of kvs ts" w1]
      assms(9) by simp
  from run t1 t2 show ?thesis by simp
qed

theorem unknown_engine_uses_system_witness:
  "parse_timestamp demo_env_no_espeak demo_now (demo_kvs ''hello'' ''nonexistent'')
     = Inr (PDatetime demo_now)
   \<and> dict_get (demo_kvs ''hello'' ''nonexistent'') ''utterance'' (PStr []) = PStr ''hello''
   \<and> strip ''hello'' \<noteq> []
   \<and> dict_get (demo_kvs ''hello'' ''nonexistent'') ''engine'' (PStr ''gtts'')
       = PStr ''nonexistent''
   \<and> tts_engines ''nonexistent'' = None
   \<and> generate_cache_key demo_env_no_espeak (PStr ''hello'')
         (options_of (demo_kvs ''hello'' ''nonexistent'') (PDatetime demo_now))
       = Inr (demo_key ''hello'' ''nonexistent'')
   \<and> cache st0 (demo_key ''hello'' ''nonexistent'') = None
   \<and> receive_utterance demo_env_no_espeak demo_now st0 w0
         (demo_payload ''hello'' ''nonexistent'')
       = (Success demo_silent_wav (PStr ''bot1'') ''system'' False,
          \<lparr>request_count = 1,
            cache = [demo_key ''hello'' ''nonexistent'' \<mapsto> demo_silent_wav]\<rparr>,
          \<lparr>files = [demo_silent_wav \<mapsto> silent_wav],
            trace = [KeyComputed (demo_key ''hello'' ''nonexistent''),
                     CacheLookup (demo_key ''hello'' ''nonexistent''),
                     Synthesize ''system'']\<rparr>)"
proof -
  let ?E = demo_env_no_espeak
  let ?kvs = "demo_kvs ''hello'' ''nonexistent''"
  let ?k = "demo_key ''hello'' ''nonexistent''"
  let ?opts = "options_of ?kvs (PDatetime demo_now)"
  let ?w1 = "\<lparr>files = [demo_silent_wav \<mapsto> silent_wav],
               trace = [KeyComputed ?k, CacheLookup ?k, Synthesize ''system'']\<rparr>"
  have h1: "parse_timestamp ?E demo_now ?kvs = Inr (PDatetime demo_now)"
    by (simp add: parse_timestamp_def demo_kvs_def)
  have h2: "dict_get ?kvs ''utterance'' (PStr []) = PStr ''hello''"
    by (simp add: dict_get_def demo_kvs_def)
  have h3: "strip ''hello'' \<noteq> []"
    by (simp add: strip_def isspace_def)
  have h4: "dict_get ?kvs ''engine'' (PStr ''gtts'') = PStr ''nonexistent''"
    by (simp add: dict_get_def demo_kvs_def)
  have h5: "tts_engines ''nonexistent'' = None"
    by (simp add: tts_engines_def)
  have h6: "generate_cache_key ?E (PStr ''hello'') ?opts = Inr ?k"
    by (simp add: webhook_defs demo_defs options_of_def)
  have h7: "\<forall>f. cache st0 ?k = Some f \<longrightarrow> \<not> path_exists w0 f"
    by (simp add: st0_def)
  have h8: "generate_audio ?E SystemTTSEngine (PStr ''hello'') ?opts (after_lookup ?k w0)
              = (Inr demo_silent_wav, ?w1)"
    by (simp add: webhook_defs demo_defs options_of_def after_lookup_def Let_def)
  obtain r2 w2 where h9: "generate_audio ?E SystemTTSEngine (PStr ''hello'') ?opts ?w1 = (r2, w2)"
    by (cases "generate_audio ?E SystemTTSEngine (PStr ''hello'') ?opts ?w1")
  from unknown_engine_uses_system [OF h1 h2 h3 h4 h5 h6 h7 h8 h9]
  have "receive_utterance ?E demo_now st0 w0 (PDict ?kvs)
          = (Success demo_silent_wav (PStr ''bot1'') ''system'' False,
             \<lparr>request_count = 1, cache = [?k \<mapsto> demo_silent_wav]\<rparr>, ?w1)"
    by (simp add: st0_def dict_get_def demo_kvs_def)
  moreover have "cache st0 ?k = None" by (simp add: st0_def)
  ultimately show ?thesis using h1 h2 h3 h4 h5 h6 by (simp add: demo_payload_def)
qed

text \<open>
  Claim C9 fails as stated: a request that names an unknown engine ends with 500 when
  the system engine raises twice, here because espeak and the disk both fail, and, in
  a world where everything works, because its timestamp is a JSON number.
\<close>

theorem unknown_engine_counterexample:
  "tts_engines ''nonexistent'' = None
   \<and> fst (receive_utterance demo_env_no_disk demo_now st0 w0
            (demo_payload ''hello'' ''nonexistent''))
       = ServerError (LibraryError ''No space left on device'') (PStr ''bot1'')
   \<and> fst (receive_utterance demo_env demo_now st0 w0
            (PDict [(''agent'', PStr ''bot1''), (''utterance'', PStr ''hello''),
                    (''engine'', PStr ''nonexistent''), (''timestamp'', PInt 5)]))
       = ServerError (AttributeError ''isoformat'') (PStr ''bot1'')"
  by (simp add: webhook_defs demo_defs Let_def)

end
